theory Spec2Isabelle
  imports Complex_Main "HOL-Library.Sublist"
begin

section \<open>Edge-deployment notebook: strings, resolver, polling stages, fleet dispatch\<close>

text \<open>
  The development embeds the code cells of
  \<^verbatim>\<open>src/cloud/image_classification_pipeline.ipynb\<close> that prepare a trained model for
  the edge: the two registry helpers, the compilation cell, the edge-packaging cell,
  \<^verbatim>\<open>split_s3_path\<close> and the IoT job cell. Python exceptions are values of type
  \<open>error\<close>; the remote services are inputs (the record \<open>world\<close>); every request the
  cells send, every sleep and every print is appended to an event log.
\<close>

subsection \<open>Python exceptions\<close>

datatype error =
    ValueError string
  | IndexError string
  | NameError string
  | ClientError string

subsection \<open>Python string operations used by the notebook\<close>

text \<open>
  \<^verbatim>\<open>s.replace(old, new)\<close>: every non-overlapping occurrence of \<open>old\<close>, scanning from the
  left, is replaced. For an empty \<open>old\<close> Python puts \<open>new\<close> before every character and
  at the end.
\<close>

fun replace_nonempty :: "string \<Rightarrow> string \<Rightarrow> string \<Rightarrow> string" where
  "replace_nonempty old new [] = []"
| "replace_nonempty old new (c # cs) =
     (if prefix old (c # cs)
      then new @ replace_nonempty old new (drop (length old - 1) cs)
      else c # replace_nonempty old new cs)"

definition str_replace :: "string \<Rightarrow> string \<Rightarrow> string \<Rightarrow> string" where
  "str_replace s old new =
     (if old = [] then new @ concat (map (\<lambda>c. c # new) s)
      else replace_nonempty old new s)"

text \<open>
  \<^verbatim>\<open>s.split(sep)\<close> for a non-empty separator: the list of the pieces between the
  occurrences of \<open>sep\<close>, never empty. An empty separator raises \<^verbatim>\<open>ValueError\<close>.
\<close>

fun split_nonempty :: "string \<Rightarrow> string \<Rightarrow> string list" where
  "split_nonempty sep [] = [[]]"
| "split_nonempty sep (c # cs) =
     (if prefix sep (c # cs)
      then [] # split_nonempty sep (drop (length sep - 1) cs)
      else (case split_nonempty sep cs of
              [] \<Rightarrow> [[c]]
            | p # ps \<Rightarrow> (c # p) # ps))"

definition str_split :: "string \<Rightarrow> string \<Rightarrow> error + string list" where
  "str_split s sep =
     (if sep = [] then Inl (ValueError ''empty separator'')
      else Inr (split_nonempty sep s))"

text \<open>\<^verbatim>\<open>sep.join(parts)\<close>.\<close>

fun str_join :: "string \<Rightarrow> string list \<Rightarrow> string" where
  "str_join sep [] = []"
| "str_join sep [p] = p"
| "str_join sep (p # q # ps) = p @ sep @ str_join sep (q # ps)"

text \<open>\<^verbatim>\<open>xs.pop(0)\<close>: the first element and the list without it; \<^verbatim>\<open>IndexError\<close> on \<open>[]\<close>.\<close>

definition pop0 :: "'a list \<Rightarrow> error + ('a \<times> 'a list)" where
  "pop0 xs = (case xs of
                [] \<Rightarrow> Inl (IndexError ''pop from empty list'')
              | x # rest \<Rightarrow> Inr (x, rest))"

text \<open>
  \<^verbatim>\<open>
  def split_s3_path(s3_path):
      path_parts=s3_path.replace("s3://","").split("/")
      bucket=path_parts.pop(0)
      key="/".join(path_parts)
      return bucket, key
  \<close>
\<close>

definition split_s3_path :: "string \<Rightarrow> error + (string \<times> string)" where
  "split_s3_path s3_path =
     (case str_split (str_replace s3_path ''s3://'' '''') ''/'' of
        Inl e \<Rightarrow> Inl e
      | Inr path_parts \<Rightarrow>
          (case pop0 path_parts of
             Inl e \<Rightarrow> Inl e
           | Inr (bucket, rest) \<Rightarrow> Inr (bucket, str_join ''/'' rest)))"

text \<open>\<open>occurs p s\<close>: the string \<open>p\<close> occurs in \<open>s\<close> as a contiguous substring.\<close>

fun occurs :: "string \<Rightarrow> string \<Rightarrow> bool" where
  "occurs p [] = (p = [])"
| "occurs p (c # cs) = (prefix p (c # cs) \<or> occurs p cs)"

text \<open>
  \<^verbatim>\<open>str(n)\<close> and \<^verbatim>\<open>'%d' % n\<close> for a Python integer: the decimal digits, with a leading
  minus sign for a negative number.
\<close>

definition digit_char :: "nat \<Rightarrow> char" where
  "digit_char d = char_of (48 + d)"

fun str_nat :: "nat \<Rightarrow> string" where
  "str_nat n = (if n < 10 then [digit_char n]
                else str_nat (n div 10) @ [digit_char (n mod 10)])"

declare str_nat.simps [simp del]

definition str_int :: "int \<Rightarrow> string" where
  "str_int i = (if i < 0 then CHR ''-'' # str_nat (nat (- i)) else str_nat (nat i))"

text \<open>\<^verbatim>\<open>int(x)\<close> for a Python number: truncation towards zero.\<close>

definition py_int :: "rat \<Rightarrow> int" where
  "py_int x = (if 0 \<le> x then \<lfloor>x\<rfloor> else \<lceil>x\<rceil>)"

text \<open>The format \<^verbatim>\<open>'%s-%d' % (a, n)\<close> of both job names.\<close>

definition format_s_d :: "string \<Rightarrow> int \<Rightarrow> string" where
  "format_s_d a n = a @ ''-'' @ str_int n"

text \<open>
  \<^verbatim>\<open>max(xs, key=f)\<close>: the first element whose key is maximal; \<^verbatim>\<open>ValueError\<close> on an
  empty sequence.
\<close>

fun py_max :: "('a \<Rightarrow> int) \<Rightarrow> 'a list \<Rightarrow> error + 'a" where
  "py_max key [] = Inl (ValueError ''max() arg is an empty sequence'')"
| "py_max key (x # xs) =
     Inr (foldl (\<lambda>best y. if key best < key y then y else best) x xs)"

text \<open>
  \<^verbatim>\<open>json.dumps(d)\<close> for a dict \<open>d\<close> whose keys and values are strings, with the defaults
  of the standard library: items in insertion order, separated by \<^verbatim>\<open>", "\<close> and
  \<^verbatim>\<open>": "\<close>; inside a string the quote, the backslash and every character outside
  \<^verbatim>\<open>' '..'~'\<close> are escaped. A \<open>char\<close> stands for the code point of the same number.
\<close>

definition hex_digit :: "nat \<Rightarrow> char" where
  "hex_digit d = (if d < 10 then char_of (48 + d) else char_of (87 + d))"

definition json_escape_char :: "char \<Rightarrow> string" where
  "json_escape_char c =
     (if c = CHR 0x5C then [CHR 0x5C, CHR 0x5C]
      else if c = CHR 0x22 then [CHR 0x5C, CHR 0x22]
      else if c = CHR 0x08 then [CHR 0x5C, CHR ''b'']
      else if c = CHR 0x0C then [CHR 0x5C, CHR ''f'']
      else if c = CHR 0x0A then [CHR 0x5C, CHR ''n'']
      else if c = CHR 0x0D then [CHR 0x5C, CHR ''r'']
      else if c = CHR 0x09 then [CHR 0x5C, CHR ''t'']
      else if (of_char c :: nat) < 32 \<or> 126 < (of_char c :: nat)
      then [CHR 0x5C, CHR ''u'', CHR ''0'', CHR ''0'',
            hex_digit (of_char c div 16), hex_digit (of_char c mod 16)]
      else [c])"

definition json_string :: "string \<Rightarrow> string" where
  "json_string s = CHR 0x22 # concat (map json_escape_char s) @ [CHR 0x22]"

definition json_dumps :: "(string \<times> string) list \<Rightarrow> string" where
  "json_dumps d =
     ''{'' @ str_join '', '' (map (\<lambda>(k, v). json_string k @ '': '' @ json_string v) d) @ ''}''"

subsection \<open>The model registry and the two resolver helpers\<close>

text \<open>
  The responses of the SageMaker client are records of the keys the notebook reads.
  \<open>list_model_packages c g st\<close> is \<^verbatim>\<open>response['ModelPackageSummaryList']\<close> of the call
  \<^verbatim>\<open>c.list_model_packages(ModelPackageGroupName=g, ModelApprovalStatus=st)\<close>.
\<close>

record model_package_summary =
  ModelPackageArn :: string
  ModelPackageVersion :: int

record container =
  ModelDataUrl :: string

record inference_specification =
  Containers :: "container list"

record model_package_description =
  InferenceSpecification :: inference_specification

record sagemaker_client =
  list_model_packages :: "string \<Rightarrow> string \<Rightarrow> model_package_summary list"
  describe_model_package :: "string \<Rightarrow> error + model_package_description"

text \<open>
  \<^verbatim>\<open>
  def get_latest_approved_s3_model_location(client, model_package_group):
      response = client.list_model_packages(
          ModelPackageGroupName=model_package_group_name,
          ModelApprovalStatus='Approved'
      )
      latest_version = max(response['ModelPackageSummaryList'], key=lambda x:x['ModelPackageVersion'])
      model_artifact_location = sm_client.describe_model_package(ModelPackageName=latest_version['ModelPackageArn'])['InferenceSpecification']['Containers'][0]['ModelDataUrl']
      return model_artifact_location
  \<close>
  The body reads two globals, \<^verbatim>\<open>sm_client\<close> and \<^verbatim>\<open>model_package_group_name\<close>; they are
  the first two arguments of the model, before the two parameters of the Python function.
\<close>

definition get_latest_approved_s3_model_location ::
  "sagemaker_client \<Rightarrow> string \<Rightarrow> sagemaker_client \<Rightarrow> string \<Rightarrow> error + string" where
  "get_latest_approved_s3_model_location sm_client_g model_package_group_name_g
       client model_package_group =
     (let response = list_model_packages client model_package_group_name_g ''Approved'' in
      case py_max ModelPackageVersion response of
        Inl e \<Rightarrow> Inl e
      | Inr latest_version \<Rightarrow>
          (case describe_model_package sm_client_g (ModelPackageArn latest_version) of
             Inl e \<Rightarrow> Inl e
           | Inr d \<Rightarrow>
               (case Containers (InferenceSpecification d) of
                  [] \<Rightarrow> Inl (IndexError ''list index out of range'')
                | c # _ \<Rightarrow> Inr (ModelDataUrl c))))"

text \<open>
  \<^verbatim>\<open>
  def get_latest_approved_model_version(client, model_package_group):
      response = client.list_model_packages(
          ModelPackageGroupName=model_package_group_name,
          ModelApprovalStatus='Approved'
      )
      latest_version = max(response['ModelPackageSummaryList'], key=lambda x:x['ModelPackageVersion'])
      return latest_version['ModelPackageVersion']
  \<close>
  Its body reads the global \<^verbatim>\<open>model_package_group_name\<close>, the first argument of the model.
\<close>

definition get_latest_approved_model_version ::
  "string \<Rightarrow> sagemaker_client \<Rightarrow> string \<Rightarrow> error + int" where
  "get_latest_approved_model_version model_package_group_name_g client model_package_group =
     (let response = list_model_packages client model_package_group_name_g ''Approved'' in
      case py_max ModelPackageVersion response of
        Inl e \<Rightarrow> Inl e
      | Inr latest_version \<Rightarrow> Inr (ModelPackageVersion latest_version))"

text \<open>
  A registry with given contents, as the service behaves towards the two calls: listing
  returns the packages of the named group that have the requested approval status (in one
  page), describing a package returns its one container, and an unknown ARN is refused.
\<close>

record model_package =
  pkg_arn :: string
  pkg_group :: string
  pkg_version :: int
  pkg_approval_status :: string
  pkg_model_data_url :: string

definition registry_client :: "model_package list \<Rightarrow> sagemaker_client" where
  "registry_client reg =
     \<lparr>list_model_packages = (\<lambda>g st.
          map (\<lambda>p. \<lparr>ModelPackageArn = pkg_arn p, ModelPackageVersion = pkg_version p\<rparr>)
            (filter (\<lambda>p. pkg_group p = g \<and> pkg_approval_status p = st) reg)),
      describe_model_package = (\<lambda>a.
          case find (\<lambda>p. pkg_arn p = a) reg of
            None \<Rightarrow> Inl (ClientError ''ValidationException'')
          | Some p \<Rightarrow>
              Inr \<lparr>InferenceSpecification =
                     \<lparr>Containers = [\<lparr>ModelDataUrl = pkg_model_data_url p\<rparr>]\<rparr>\<rparr>)\<rparr>"

subsection \<open>Configuration, requests, the remote world and the notebook's variables\<close>

text \<open>
  The first code cell fixes the account, the region, the role and the project name; the
  other names of the configuration are computed from them.
\<close>

record config =
  region :: string
  account_id :: string
  PROJECT_NAME :: string
  role :: string

definition bucket_name :: "config \<Rightarrow> string" where
  "bucket_name cfg = ''sm-edge-workshop-'' @ PROJECT_NAME cfg @ ''-'' @ account_id cfg"

definition model_package_group_name :: "config \<Rightarrow> string" where
  "model_package_group_name cfg = ''defect-detection-img-classification-'' @ PROJECT_NAME cfg"

definition job_prefix :: string where
  "job_prefix = ''defect-detection-img-classification''"

definition compilation_output_sub_folder :: string where
  "compilation_output_sub_folder = ''models/'' @ job_prefix @ ''/compilation-output''"

definition edgepackaging_output_sub_folder :: string where
  "edgepackaging_output_sub_folder = ''models/'' @ job_prefix @ ''/edge-packaging-output''"

definition s3_compilation_output_location :: "config \<Rightarrow> string" where
  "s3_compilation_output_location cfg =
     ''s3://'' @ bucket_name cfg @ ''/'' @ compilation_output_sub_folder"

definition s3_edgepackaging_output_location :: "config \<Rightarrow> string" where
  "s3_edgepackaging_output_location cfg =
     ''s3://'' @ bucket_name cfg @ ''/'' @ edgepackaging_output_sub_folder"

text \<open>The keyword arguments of the three job submissions (nested dicts flattened).\<close>

record compilation_job_request =
  cj_CompilationJobName :: string
  cj_RoleArn :: string
  cj_InputConfig_S3Uri :: string
  cj_InputConfig_DataInputConfig :: string
  cj_InputConfig_Framework :: string
  cj_OutputConfig_S3OutputLocation :: string
  cj_OutputConfig_TargetPlatform_Os :: string
  cj_OutputConfig_TargetPlatform_Arch :: string
  cj_StoppingCondition_MaxRuntimeInSeconds :: nat

record edge_packaging_job_request =
  ep_EdgePackagingJobName :: string
  ep_CompilationJobName :: string
  ep_ModelName :: string
  ep_ModelVersion :: string
  ep_RoleArn :: string
  ep_OutputConfig_S3OutputLocation :: string

record iot_job_request =
  jobId :: string
  targets :: "string list"
  document :: string
  targetSelection :: string

text \<open>The keys read from the two status responses.\<close>

record model_artifacts =
  S3ModelArtifacts :: string

record compilation_job_description =
  CompilationJobStatus :: string
  ModelArtifacts :: model_artifacts

record edge_packaging_job_description =
  EdgePackagingJobStatus :: string
  ModelArtifact :: string

text \<open>
  What the cells do to the outside: job submissions, status requests, sleeps (in seconds)
  and the text written by \<^verbatim>\<open>print\<close>.
\<close>

datatype event =
    CreateCompilationJob compilation_job_request
  | DescribeCompilationJob string
  | CreateEdgePackagingJob edge_packaging_job_request
  | DescribeEdgePackagingJob string
  | CreateJob iot_job_request
  | Sleep nat
  | Print string

text \<open>
  What the outside answers: the registry client \<^verbatim>\<open>sm_client\<close>, the answer of the
  \<open>n\<close>-th status request of each stage for the named job, the \<open>n\<close>-th reading of
  \<^verbatim>\<open>time.time()\<close> and the string of \<^verbatim>\<open>str(uuid.uuid4())\<close>.
\<close>

record world =
  sm_client :: sagemaker_client
  describe_compilation_job :: "nat \<Rightarrow> string \<Rightarrow> compilation_job_description"
  describe_edge_packaging_job :: "nat \<Rightarrow> string \<Rightarrow> edge_packaging_job_description"
  time_time :: "nat \<Rightarrow> rat"
  uuid4 :: string

text \<open>
  The global variables the edge cells assign (\<open>None\<close>: not assigned yet, reading it
  raises \<^verbatim>\<open>NameError\<close>), and the event log.
\<close>

record state =
  s3_model_artifact_location :: "string option"
  model_name :: "string option"
  compilation_job_name :: "string option"
  s3_compiled_model_artifact_location_fullpath :: "string option"
  edge_packaging_job_name :: "string option"
  model_version :: "string option"
  s3_packaged_model_artifact_location_fullpath :: "string option"
  model_bucket :: "string option"
  model_key :: "string option"
  log :: "event list"

definition fresh :: state where
  "fresh = \<lparr>s3_model_artifact_location = None, model_name = None,
            compilation_job_name = None,
            s3_compiled_model_artifact_location_fullpath = None,
            edge_packaging_job_name = None, model_version = None,
            s3_packaged_model_artifact_location_fullpath = None,
            model_bucket = None, model_key = None, log = []\<rparr>"

text \<open>
  A cell either runs to its end or stops at the statement that raises; either way the
  variables assigned and the events logged so far remain.
\<close>

datatype outcome = Raised error state | Done state

fun final_state :: "outcome \<Rightarrow> state" where
  "final_state (Raised e s) = s"
| "final_state (Done s) = s"

fun raised :: "outcome \<Rightarrow> bool" where
  "raised (Raised e s) = True"
| "raised (Done s) = False"

definition nl :: string where
  "nl = [CHR 0x0A]"

subsection \<open>The polling loop\<close>

text \<open>
  Both stages poll with the same loop, up to the status request and the key of the status:
  \<^verbatim>\<open>
  while True:
      resp = sm_client.describe_compilation_job(CompilationJobName=compilation_job_name)
      if resp['CompilationJobStatus'] in ['STARTING', 'INPROGRESS']:
          print('.', end='')
      else:
          print(resp['CompilationJobStatus'], compilation_job_name)
          break
      time.sleep(5)
  \<close>
  \<open>describe n\<close> is the answer to the \<open>n\<close>-th request, \<open>call\<close> the logged request, \<open>shown\<close>
  the job name the last print shows. The loop returns the last response and the log. A
  service that never leaves the two states makes the loop run forever: the result is
  \<open>None\<close>.
\<close>

partial_function (option) poll_job ::
  "(nat \<Rightarrow> 'r) \<Rightarrow> ('r \<Rightarrow> string) \<Rightarrow> event \<Rightarrow> string \<Rightarrow> nat \<Rightarrow> event list
     \<Rightarrow> ('r \<times> event list) option" where
  "poll_job describe status call shown n lg =
     (let resp = describe n; lg1 = lg @ [call] in
      if status resp \<in> set [''STARTING'', ''INPROGRESS'']
      then poll_job describe status call shown (Suc n) (lg1 @ [Print ''.'', Sleep 5])
      else Some (resp, lg1 @ [Print (status resp @ '' '' @ shown @ nl)]))"

subsection \<open>The compilation cell\<close>

text \<open>
  Lines up to the first print of the polling part: resolve the model location, name the
  job after the clock, submit the compilation job.
\<close>

definition compilation_submit :: "world \<Rightarrow> config \<Rightarrow> state \<Rightarrow> outcome" where
  "compilation_submit w cfg s =
     (case get_latest_approved_s3_model_location (sm_client w) (model_package_group_name cfg)
             (sm_client w) (model_package_group_name cfg) of
        Inl e \<Rightarrow> Raised e s
      | Inr loc \<Rightarrow>
          (let s1 = s\<lparr>s3_model_artifact_location := Some loc,
                      log := log s @ [Print (loc @ nl)]\<rparr>;
               s2 = s1\<lparr>model_name := Some ''img-classification''\<rparr>;
               name = format_s_d ''img-classification'' (py_int (time_time w 0 * 1000));
               s3 = s2\<lparr>compilation_job_name := Some name\<rparr>
           in Done (s3\<lparr>log := log s3 @
                [CreateCompilationJob
                   \<lparr>cj_CompilationJobName = name,
                    cj_RoleArn = role cfg,
                    cj_InputConfig_S3Uri = loc,
                    cj_InputConfig_DataInputConfig =
                      ''{'' @ [CHR 0x22] @ ''data'' @ [CHR 0x22] @ '': [1,3,224,224]}'',
                    cj_InputConfig_Framework = ''MXNET'',
                    cj_OutputConfig_S3OutputLocation = s3_compilation_output_location cfg,
                    cj_OutputConfig_TargetPlatform_Os = ''LINUX'',
                    cj_OutputConfig_TargetPlatform_Arch = ''X86_64'',
                    cj_StoppingCondition_MaxRuntimeInSeconds = 900\<rparr>,
                 Print ''Started compilation job .'']\<rparr>)))"

text \<open>
  The loop, then
  \<^verbatim>\<open>
  if resp['CompilationJobStatus'] == 'COMPLETED':
      s3_compiled_model_artifact_location_fullpath = resp['ModelArtifacts']['S3ModelArtifacts']
      print(f'Compiled artifact location in S3: {s3_compiled_model_artifact_location_fullpath}')
  \<close>
\<close>

definition compilation_poll :: "world \<Rightarrow> state \<Rightarrow> outcome option" where
  "compilation_poll w s =
     (case compilation_job_name s of
        None \<Rightarrow> Some (Raised (NameError ''compilation_job_name'') s)
      | Some name \<Rightarrow>
          (case poll_job (\<lambda>n. describe_compilation_job w n name) CompilationJobStatus
                  (DescribeCompilationJob name) name 0 (log s) of
             None \<Rightarrow> None
           | Some (resp, lg) \<Rightarrow>
               Some (if CompilationJobStatus resp = ''COMPLETED''
                     then (let loc = S3ModelArtifacts (ModelArtifacts resp) in
                           Done (s\<lparr>s3_compiled_model_artifact_location_fullpath := Some loc,
                                   log := lg @ [Print (''Compiled artifact location in S3: ''
                                                        @ loc @ nl)]\<rparr>))
                     else Done (s\<lparr>log := lg\<rparr>))))"

text \<open>Sequencing inside a cell and between cells: an exception stops the run.\<close>

fun and_then :: "outcome option \<Rightarrow> (state \<Rightarrow> outcome option) \<Rightarrow> outcome option" where
  "and_then None f = None"
| "and_then (Some (Raised e s)) f = Some (Raised e s)"
| "and_then (Some (Done s)) f = f s"

definition compilation_cell :: "world \<Rightarrow> config \<Rightarrow> state \<Rightarrow> outcome option" where
  "compilation_cell w cfg s = and_then (Some (compilation_submit w cfg s)) (compilation_poll w)"

subsection \<open>The edge-packaging cell\<close>

definition packaging_submit :: "world \<Rightarrow> config \<Rightarrow> state \<Rightarrow> outcome" where
  "packaging_submit w cfg s =
     (case model_name s of
        None \<Rightarrow> Raised (NameError ''model_name'') s
      | Some mn \<Rightarrow>
          (let name = format_s_d mn (py_int (time_time w 1 * 1000));
               s1 = s\<lparr>edge_packaging_job_name := Some name\<rparr>
           in case get_latest_approved_model_version (model_package_group_name cfg)
                     (sm_client w) (model_package_group_name cfg) of
                Inl e \<Rightarrow> Raised e s1
              | Inr v \<Rightarrow>
                  (let s2 = s1\<lparr>model_version := Some (str_int v)\<rparr> in
                   case compilation_job_name s2 of
                     None \<Rightarrow> Raised (NameError ''compilation_job_name'') s2
                   | Some cjn \<Rightarrow>
                       Done (s2\<lparr>log := log s2 @
                         [CreateEdgePackagingJob
                            \<lparr>ep_EdgePackagingJobName = name,
                             ep_CompilationJobName = cjn,
                             ep_ModelName = mn,
                             ep_ModelVersion = str_int v,
                             ep_RoleArn = role cfg,
                             ep_OutputConfig_S3OutputLocation =
                               s3_edgepackaging_output_location cfg\<rparr>,
                          Print ''Started edge packaging job .'']\<rparr>))))"

text \<open>
  The second loop shows \<^verbatim>\<open>compilation_job_name\<close> in its last print, as the source does;
  then
  \<^verbatim>\<open>
  if resp['EdgePackagingJobStatus'] == 'COMPLETED':
      s3_packaged_model_artifact_location_fullpath = resp['ModelArtifact']
      print(f'Packaged artifact location in S3: {s3_packaged_model_artifact_location_fullpath}')
  \<close>
\<close>

definition packaging_poll :: "world \<Rightarrow> state \<Rightarrow> outcome option" where
  "packaging_poll w s =
     (case edge_packaging_job_name s of
        None \<Rightarrow> Some (Raised (NameError ''edge_packaging_job_name'') s)
      | Some name \<Rightarrow>
          (case compilation_job_name s of
             None \<Rightarrow> Some (Raised (NameError ''compilation_job_name'') s)
           | Some cjn \<Rightarrow>
               (case poll_job (\<lambda>n. describe_edge_packaging_job w n name) EdgePackagingJobStatus
                       (DescribeEdgePackagingJob name) cjn 0 (log s) of
                  None \<Rightarrow> None
                | Some (resp, lg) \<Rightarrow>
                    Some (if EdgePackagingJobStatus resp = ''COMPLETED''
                          then (let loc = ModelArtifact resp in
                                Done (s\<lparr>s3_packaged_model_artifact_location_fullpath := Some loc,
                                        log := lg @ [Print (''Packaged artifact location in S3: ''
                                                             @ loc @ nl)]\<rparr>))
                          else Done (s\<lparr>log := lg\<rparr>)))))"

definition packaging_cell :: "world \<Rightarrow> config \<Rightarrow> state \<Rightarrow> outcome option" where
  "packaging_cell w cfg s = and_then (Some (packaging_submit w cfg s)) (packaging_poll w)"

subsection \<open>The two IoT cells\<close>

text \<open>
  \<^verbatim>\<open>model_bucket, model_key = split_s3_path(s3_packaged_model_artifact_location_fullpath)\<close>
\<close>

definition split_cell :: "state \<Rightarrow> outcome" where
  "split_cell s =
     (case s3_packaged_model_artifact_location_fullpath s of
        None \<Rightarrow> Raised (NameError ''s3_packaged_model_artifact_location_fullpath'') s
      | Some p \<Rightarrow>
          (case split_s3_path p of
             Inl e \<Rightarrow> Raised e s
           | Inr (b, k) \<Rightarrow> Done (s\<lparr>model_bucket := Some b, model_key := Some k\<rparr>)))"

text \<open>
  \<^verbatim>\<open>
  resp = iot_client.create_job(
      jobId=str(uuid.uuid4()),
      targets=['arn:aws:iot:%s:%s:thinggroup/defect-detection-%s-group' % (region, account_id, PROJECT_NAME)],
      document=json.dumps({'type': 'new_model', 'model_version': model_version,
          'model_name': model_name, 'model_package_bucket': model_bucket,
          'model_package_key': model_key}),
      targetSelection='SNAPSHOT')
  \<close>
  The arguments are evaluated in this order before the call is made.
\<close>

definition thing_group_arn :: "config \<Rightarrow> string" where
  "thing_group_arn cfg =
     ''arn:aws:iot:'' @ region cfg @ '':'' @ account_id cfg
       @ '':thinggroup/defect-detection-'' @ PROJECT_NAME cfg @ ''-group''"

definition dispatch_cell :: "world \<Rightarrow> config \<Rightarrow> state \<Rightarrow> outcome" where
  "dispatch_cell w cfg s =
     (case model_version s of
        None \<Rightarrow> Raised (NameError ''model_version'') s
      | Some mv \<Rightarrow>
     (case model_name s of
        None \<Rightarrow> Raised (NameError ''model_name'') s
      | Some mn \<Rightarrow>
     (case model_bucket s of
        None \<Rightarrow> Raised (NameError ''model_bucket'') s
      | Some mb \<Rightarrow>
     (case model_key s of
        None \<Rightarrow> Raised (NameError ''model_key'') s
      | Some mk \<Rightarrow>
          Done (s\<lparr>log := log s @
            [CreateJob
               \<lparr>jobId = uuid4 w,
                targets = [thing_group_arn cfg],
                document = json_dumps
                  [(''type'', ''new_model''),
                   (''model_version'', mv),
                   (''model_name'', mn),
                   (''model_package_bucket'', mb),
                   (''model_package_key'', mk)],
                targetSelection = ''SNAPSHOT''\<rparr>]\<rparr>)))))"

subsection \<open>Running the edge cells in order\<close>

definition run_from :: "world \<Rightarrow> config \<Rightarrow> state \<Rightarrow> outcome option" where
  "run_from w cfg s =
     and_then (and_then (and_then (compilation_cell w cfg s)
       (packaging_cell w cfg))
       (\<lambda>s. Some (split_cell s)))
       (\<lambda>s. Some (dispatch_cell w cfg s))"

definition run_notebook :: "world \<Rightarrow> config \<Rightarrow> outcome option" where
  "run_notebook w cfg = run_from w cfg fresh"

text \<open>The requests of each kind found in a log.\<close>

fun is_create_job :: "event \<Rightarrow> bool" where
  "is_create_job (CreateJob r) = True"
| "is_create_job e = False"

fun is_create_edge_packaging_job :: "event \<Rightarrow> bool" where
  "is_create_edge_packaging_job (CreateEdgePackagingJob r) = True"
| "is_create_edge_packaging_job e = False"

subsection \<open>Notions used to state the properties\<close>

text \<open>
  \<open>first_terminal status k\<close>: the \<open>k\<close>-th status reported is the first one outside
  \<^verbatim>\<open>['STARTING', 'INPROGRESS']\<close>.
\<close>

definition first_terminal :: "(nat \<Rightarrow> string) \<Rightarrow> nat \<Rightarrow> bool" where
  "first_terminal status k \<longleftrightarrow>
     list_all (\<lambda>j. status j \<in> set [''STARTING'', ''INPROGRESS'']) [0..<k]
     \<and> status k \<notin> set [''STARTING'', ''INPROGRESS'']"

text \<open>The events of a loop that polls \<open>k\<close> times in vain and then reads \<open>final\<close>.\<close>

definition polling_log :: "event \<Rightarrow> string \<Rightarrow> string \<Rightarrow> nat \<Rightarrow> event list" where
  "polling_log call shown final k =
     concat (replicate k [call, Print ''.'', Sleep 5])
       @ [call, Print (final @ '' '' @ shown @ nl)]"

text \<open>The names the two cells give their jobs in a run of the whole notebook.\<close>

definition compilation_name :: "world \<Rightarrow> string" where
  "compilation_name w = format_s_d ''img-classification'' (py_int (time_time w 0 * 1000))"

definition packaging_name :: "world \<Rightarrow> string" where
  "packaging_name w = format_s_d ''img-classification'' (py_int (time_time w 1 * 1000))"

definition compilation_status :: "world \<Rightarrow> nat \<Rightarrow> string" where
  "compilation_status w n =
     CompilationJobStatus (describe_compilation_job w n (compilation_name w))"

definition packaging_status :: "world \<Rightarrow> nat \<Rightarrow> string" where
  "packaging_status w n =
     EdgePackagingJobStatus (describe_edge_packaging_job w n (packaging_name w))"

definition create_jobs :: "outcome \<Rightarrow> event list" where
  "create_jobs out = filter is_create_job (log (final_state out))"

definition create_edge_packaging_jobs :: "state \<Rightarrow> event list" where
  "create_edge_packaging_jobs s = filter is_create_edge_packaging_job (log s)"

text \<open>The packages of a registry that the listing call returns for a group.\<close>

definition approved_in :: "model_package list \<Rightarrow> string \<Rightarrow> model_package list" where
  "approved_in reg g =
     filter (\<lambda>p. pkg_group p = g \<and> pkg_approval_status p = ''Approved'') reg"

text \<open>
  The events of a run of the compilation cell that resolves the location \<open>loc\<close> and sees
  the first terminal status at the \<open>k\<close>-th request, and of a run of the packaging cell that
  resolves the version \<open>v\<close>.
\<close>

definition compilation_events :: "world \<Rightarrow> config \<Rightarrow> string \<Rightarrow> nat \<Rightarrow> event list" where
  "compilation_events w cfg loc k =
     [Print (loc @ nl),
      CreateCompilationJob
        \<lparr>cj_CompilationJobName = compilation_name w,
         cj_RoleArn = role cfg,
         cj_InputConfig_S3Uri = loc,
         cj_InputConfig_DataInputConfig =
           ''{'' @ [CHR 0x22] @ ''data'' @ [CHR 0x22] @ '': [1,3,224,224]}'',
         cj_InputConfig_Framework = ''MXNET'',
         cj_OutputConfig_S3OutputLocation = s3_compilation_output_location cfg,
         cj_OutputConfig_TargetPlatform_Os = ''LINUX'',
         cj_OutputConfig_TargetPlatform_Arch = ''X86_64'',
         cj_StoppingCondition_MaxRuntimeInSeconds = 900\<rparr>,
      Print ''Started compilation job .'']
     @ polling_log (DescribeCompilationJob (compilation_name w)) (compilation_name w)
         (compilation_status w k) k
     @ (if compilation_status w k = ''COMPLETED''
        then [Print (''Compiled artifact location in S3: ''
                @ S3ModelArtifacts (ModelArtifacts
                    (describe_compilation_job w k (compilation_name w))) @ nl)]
        else [])"

definition packaging_request :: "world \<Rightarrow> config \<Rightarrow> int \<Rightarrow> edge_packaging_job_request" where
  "packaging_request w cfg v =
     \<lparr>ep_EdgePackagingJobName = packaging_name w,
      ep_CompilationJobName = compilation_name w,
      ep_ModelName = ''img-classification'',
      ep_ModelVersion = str_int v,
      ep_RoleArn = role cfg,
      ep_OutputConfig_S3OutputLocation = s3_edgepackaging_output_location cfg\<rparr>"

definition packaging_events :: "world \<Rightarrow> config \<Rightarrow> int \<Rightarrow> nat \<Rightarrow> event list" where
  "packaging_events w cfg v k =
     [CreateEdgePackagingJob (packaging_request w cfg v),
      Print ''Started edge packaging job .'']
     @ polling_log (DescribeEdgePackagingJob (packaging_name w)) (compilation_name w)
         (packaging_status w k) k
     @ (if packaging_status w k = ''COMPLETED''
        then [Print (''Packaged artifact location in S3: ''
                @ ModelArtifact (describe_edge_packaging_job w k (packaging_name w)) @ nl)]
        else [])"

definition iot_request :: "world \<Rightarrow> config \<Rightarrow> int \<Rightarrow> string \<Rightarrow> string \<Rightarrow> iot_job_request" where
  "iot_request w cfg v b k =
     \<lparr>jobId = uuid4 w,
      targets = [thing_group_arn cfg],
      document = json_dumps
        [(''type'', ''new_model''),
         (''model_version'', str_int v),
         (''model_name'', ''img-classification''),
         (''model_package_bucket'', b),
         (''model_package_key'', k)],
      targetSelection = ''SNAPSHOT''\<rparr>"

text \<open>The variables after the packaging cell, and after the last cell.\<close>

definition packaged_state :: "world \<Rightarrow> config \<Rightarrow> string \<Rightarrow> int \<Rightarrow> nat \<Rightarrow> nat \<Rightarrow> state" where
  "packaged_state w cfg loc v kc kp =
     \<lparr>s3_model_artifact_location = Some loc,
      model_name = Some ''img-classification'',
      compilation_job_name = Some (compilation_name w),
      s3_compiled_model_artifact_location_fullpath =
        (if compilation_status w kc = ''COMPLETED''
         then Some (S3ModelArtifacts (ModelArtifacts
                 (describe_compilation_job w kc (compilation_name w))))
         else None),
      edge_packaging_job_name = Some (packaging_name w),
      model_version = Some (str_int v),
      s3_packaged_model_artifact_location_fullpath =
        (if packaging_status w kp = ''COMPLETED''
         then Some (ModelArtifact (describe_edge_packaging_job w kp (packaging_name w)))
         else None),
      model_bucket = None,
      model_key = None,
      log = compilation_events w cfg loc kc @ packaging_events w cfg v kp\<rparr>"

definition dispatched_state ::
  "world \<Rightarrow> config \<Rightarrow> string \<Rightarrow> int \<Rightarrow> nat \<Rightarrow> nat \<Rightarrow> string \<Rightarrow> string \<Rightarrow> state" where
  "dispatched_state w cfg loc v kc kp b k =
     (packaged_state w cfg loc v kc kp)
       \<lparr>model_bucket := Some b, model_key := Some k,
        log := compilation_events w cfg loc kc @ packaging_events w cfg v kp
                 @ [CreateJob (iot_request w cfg v b k)]\<rparr>"

subsection \<open>Example inputs\<close>

definition example_cfg :: config where
  "example_cfg = \<lparr>region = ''eu-west-1'', account_id = ''123456789012'',
                   PROJECT_NAME = ''demo'',
                   role = ''arn:aws:iam::123456789012:role/edge''\<rparr>"

text \<open>
  A registry with the versions 1, 2 and 5 of the example group, version 5 not approved,
  and one approved package of another group.
\<close>

definition registry_1_2_5 :: "model_package list" where
  "registry_1_2_5 =
     [\<lparr>pkg_arn = ''arn:pkg/1'', pkg_group = ''defect-detection-img-classification-demo'',
       pkg_version = 1, pkg_approval_status = ''Approved'',
       pkg_model_data_url = ''s3://models/v1/model.tar.gz''\<rparr>,
      \<lparr>pkg_arn = ''arn:pkg/2'', pkg_group = ''defect-detection-img-classification-demo'',
       pkg_version = 2, pkg_approval_status = ''Approved'',
       pkg_model_data_url = ''s3://models/v2/model.tar.gz''\<rparr>,
      \<lparr>pkg_arn = ''arn:pkg/5'', pkg_group = ''defect-detection-img-classification-demo'',
       pkg_version = 5, pkg_approval_status = ''PendingManualApproval'',
       pkg_model_data_url = ''s3://models/v5/model.tar.gz''\<rparr>,
      \<lparr>pkg_arn = ''arn:other/7'', pkg_group = ''other-group'',
       pkg_version = 7, pkg_approval_status = ''Approved'',
       pkg_model_data_url = ''s3://models/other/model.tar.gz''\<rparr>]"

definition registry_unapproved :: "model_package list" where
  "registry_unapproved =
     [\<lparr>pkg_arn = ''arn:pkg/1'', pkg_group = ''defect-detection-img-classification-demo'',
       pkg_version = 1, pkg_approval_status = ''PendingManualApproval'',
       pkg_model_data_url = ''s3://models/v1/model.tar.gz''\<rparr>]"

text \<open>
  A world that reports the given statuses, one per status request, over the registry above
  and with the given two clock readings.
\<close>

definition scripted :: "string list \<Rightarrow> nat \<Rightarrow> string" where
  "scripted xs n = (if n < length xs then xs ! n else ''INPROGRESS'')"

definition scripted_world :: "string list \<Rightarrow> string list \<Rightarrow> rat \<Rightarrow> rat \<Rightarrow> world" where
  "scripted_world cs ps t0 t1 =
     \<lparr>sm_client = registry_client registry_1_2_5,
      describe_compilation_job = (\<lambda>n name.
        \<lparr>CompilationJobStatus = scripted cs n,
         ModelArtifacts = \<lparr>S3ModelArtifacts = ''s3://out/compiled/'' @ name @ ''.tar.gz''\<rparr>\<rparr>),
      describe_edge_packaging_job = (\<lambda>n name.
        \<lparr>EdgePackagingJobStatus = scripted ps n,
         ModelArtifact = ''s3://bucket-x/path/to/model.tar.gz''\<rparr>),
      time_time = (\<lambda>n. if n = 0 then t0 else t1),
      uuid4 = ''0b0f1c5e-7a52-4c1e-9d57-3f2a8f1f6a11''\<rparr>"

section \<open>Facts about the string operations\<close>

lemma replace_nonempty_no_occurrence:
  "old \<noteq> [] \<Longrightarrow> \<not> occurs old s \<Longrightarrow> replace_nonempty old new s = s"
  by (induction s) auto




lemma occurs_sublist: "occurs p s \<longleftrightarrow> sublist p s"
  by (induction s) (auto simp: sublist_Cons_right)

lemma split_nonempty_not_Nil: "split_nonempty sep s \<noteq> []"
  by (induction s) (auto split: list.splits)

lemma split_slash_append:
  "CHR ''/'' \<notin> set b \<Longrightarrow>
     split_nonempty ''/'' (b @ CHR ''/'' # k) = b # split_nonempty ''/'' k"
  by (induction b) (auto split: list.splits)

lemma join_split_slash: "str_join ''/'' (split_nonempty ''/'' s) = s"
proof (induction s)
  case Nil
  then show ?case by simp
next
  case (Cons c cs)
  obtain p ps where ps: "split_nonempty ''/'' cs = p # ps"
    using split_nonempty_not_Nil [of "''/''" cs]
    by (cases "split_nonempty ''/'' cs") auto
  have j: "str_join ''/'' ((c # p) # ps) = c # str_join ''/'' (p # ps)"
    by (cases ps) auto
  have k: "str_join ''/'' ([] # p # ps) = CHR ''/'' # str_join ''/'' (p # ps)"
    by simp
  show ?case using Cons ps j k by (auto simp del: str_join.simps)
qed


lemma split_s3_path_total: "\<exists>bucket key. split_s3_path s = Inr (bucket, key)"
  using split_nonempty_not_Nil [of "''/''" "replace_nonempty ''s3://'' [] s"]
  by (cases "split_nonempty ''/'' (replace_nonempty ''s3://'' [] s)")
     (auto simp: split_s3_path_def str_split_def str_replace_def pop0_def)


lemma split_s3_path_uri:
  assumes "CHR ''/'' \<notin> set b" and "\<not> occurs ''s3://'' (b @ ''/'' @ k)"
  shows "split_s3_path (''s3://'' @ b @ ''/'' @ k) = Inr (b, k)"
proof -
  have "replace_nonempty ''s3://'' [] (''s3://'' @ b @ ''/'' @ k) = b @ ''/'' @ k"
    using assms(2) replace_nonempty_no_occurrence [of "''s3://''" "b @ ''/'' @ k" "[]"]
    by (simp del: occurs.simps)
  then show ?thesis
    using assms(1) split_slash_append [of b k] join_split_slash [of k]
    by (simp add: split_s3_path_def str_split_def str_replace_def pop0_def
             del: replace_nonempty.simps split_nonempty.simps)
qed


section \<open>The bucket/key splitter\<close>

text \<open>
  Claim C6, as amended. \<^verbatim>\<open>split_s3_path('s3://bucket-x/path/to/model.tar.gz')\<close> is
  \<^verbatim>\<open>('bucket-x', 'path/to/model.tar.gz')\<close>; and for every bucket name \<open>b\<close> without a
  slash and every key \<open>k\<close> such that \<^verbatim>\<open>s3://\<close> does not occur in \<open>b + '/' + k\<close>, the URI
  \<open>'s3://' + b + '/' + k\<close> is split into \<open>(b, k)\<close>.
\<close>

theorem split_s3_path_well_formed_uri:
  "split_s3_path ''s3://bucket-x/path/to/model.tar.gz'' = Inr (''bucket-x'', ''path/to/model.tar.gz'')
   \<and> (\<forall>b k. CHR ''/'' \<notin> set b \<and> \<not> occurs ''s3://'' (b @ ''/'' @ k)
          \<longrightarrow> split_s3_path (''s3://'' @ b @ ''/'' @ k) = Inr (b, k))"
proof
  show "split_s3_path ''s3://bucket-x/path/to/model.tar.gz'' = Inr (''bucket-x'', ''path/to/model.tar.gz'')"
    by (simp add: split_s3_path_def str_split_def str_replace_def pop0_def)
  show "\<forall>b k. CHR ''/'' \<notin> set b \<and> \<not> occurs ''s3://'' (b @ ''/'' @ k)
          \<longrightarrow> split_s3_path (''s3://'' @ b @ ''/'' @ k) = Inr (b, k)"
    using split_s3_path_uri by blast
qed

text \<open>The general part of C6 at a bucket and a key that satisfy its hypothesis.\<close>

theorem split_s3_path_well_formed_uri_witness:
  "CHR ''/'' \<notin> set ''my-bucket''
   \<and> \<not> occurs ''s3://'' (''my-bucket'' @ ''/'' @ ''models/v2/model.tar.gz'')
   \<and> split_s3_path (''s3://'' @ ''my-bucket'' @ ''/'' @ ''models/v2/model.tar.gz'')
       = Inr (''my-bucket'', ''models/v2/model.tar.gz'')"
proof -
  have h: "CHR ''/'' \<notin> set ''my-bucket''
           \<and> \<not> occurs ''s3://'' (''my-bucket'' @ ''/'' @ ''models/v2/model.tar.gz'')"
    by simp
  from split_s3_path_well_formed_uri [THEN conjunct2, rule_format, OF h] h
  show ?thesis by blast
qed

text \<open>
  C6 as stated fails for a key that contains \<^verbatim>\<open>s3://\<close>: the URI
  \<^verbatim>\<open>s3://bucket-x/a/s3://b\<close> has the bucket \<^verbatim>\<open>bucket-x\<close> and the key \<^verbatim>\<open>a/s3://b\<close>, and the
  splitter does not return that key.
\<close>

theorem split_s3_path_key_with_scheme_counterexample:
  "split_s3_path (''s3://'' @ ''bucket-x'' @ ''/'' @ ''a/s3://b'') \<noteq> Inr (''bucket-x'', ''a/s3://b'')"
  by (simp add: split_s3_path_def str_split_def str_replace_def pop0_def)




section \<open>Facts about numbers, \<open>max\<close> and the registry\<close>








lemma py_max_foldl:
  fixes key :: "'a \<Rightarrow> int"
  shows "foldl (\<lambda>best y. if key best < key y then y else best) x xs \<in> set (x # xs) \<and>
   (\<forall>y \<in> set (x # xs). key y \<le> key (foldl (\<lambda>best y. if key best < key y then y else best) x xs))"
proof (induction xs arbitrary: x)
  case Nil then show ?case by simp
next
  case (Cons a xs)
  show ?case using Cons [of "if key x < key a then a else x"]
    by (auto simp del: foldl_Cons simp add: foldl_Cons [of _ x a xs]) 
qed

lemma py_max_nonempty:
  fixes key :: "'a \<Rightarrow> int"
  assumes "xs \<noteq> []"
  shows "\<exists>m \<in> set xs. py_max key xs = Inr m \<and> (\<forall>y \<in> set xs. key y \<le> key m)"
proof -
  obtain x rest where xs: "xs = x # rest" using assms by (cases xs) auto
  show ?thesis using py_max_foldl [of key x rest] unfolding xs by (simp del: foldl_Cons)
qed

lemma find_distinct_arn:
  "distinct (map pkg_arn reg) \<Longrightarrow> p \<in> set reg \<Longrightarrow> find (\<lambda>q. pkg_arn q = pkg_arn p) reg = Some p"
  by (induction reg) (auto simp: image_iff)


lemma registry_list_approved:
  "list_model_packages (registry_client reg) g ''Approved''
     = map (\<lambda>p. \<lparr>ModelPackageArn = pkg_arn p, ModelPackageVersion = pkg_version p\<rparr>)
         (approved_in reg g)"
  by (simp add: registry_client_def approved_in_def)

lemma registry_describe:
  "distinct (map pkg_arn reg) \<Longrightarrow> p \<in> set reg \<Longrightarrow>
     describe_model_package (registry_client reg) (pkg_arn p)
       = Inr \<lparr>InferenceSpecification = \<lparr>Containers = [\<lparr>ModelDataUrl = pkg_model_data_url p\<rparr>]\<rparr>\<rparr>"
  by (simp add: registry_client_def find_distinct_arn)

section \<open>The model resolver\<close>

text \<open>
  Claim C3. Over a registry \<open>reg\<close> whose packages have distinct ARNs, when the listing for
  the group is not empty, both helpers answer for one and the same listed package \<open>p\<close>:
  it is approved and of the group, no approved package of the group has a higher version,
  the first helper returns its artifact URI and the second its version number.
\<close>

theorem resolver_latest_approved:
  assumes "distinct (map pkg_arn reg)" and "approved_in reg g \<noteq> []"
  shows "\<exists>p \<in> set (approved_in reg g).
           (\<forall>q \<in> set (approved_in reg g). pkg_version q \<le> pkg_version p)
           \<and> get_latest_approved_s3_model_location (registry_client reg) g (registry_client reg) arg
               = Inr (pkg_model_data_url p)
           \<and> get_latest_approved_model_version g (registry_client reg) arg = Inr (pkg_version p)"
proof -
  let ?summary = "\<lambda>p. \<lparr>ModelPackageArn = pkg_arn p, ModelPackageVersion = pkg_version p\<rparr>"
  let ?resp = "map ?summary (approved_in reg g)"
  have "?resp \<noteq> []" using assms(2) by simp
  from py_max_nonempty [OF this, of ModelPackageVersion]
  obtain m where m: "m \<in> set ?resp" "py_max ModelPackageVersion ?resp = Inr m"
    "\<forall>y \<in> set ?resp. ModelPackageVersion y \<le> ModelPackageVersion m" by blast
  from m(1) obtain p where p: "p \<in> set (approved_in reg g)" "m = ?summary p" by auto
  have preg: "p \<in> set reg" using p(1) by (simp add: approved_in_def)
  have mx: "\<forall>q \<in> set (approved_in reg g). pkg_version q \<le> pkg_version p"
    using m(3) p(2) by simp
  have loc: "get_latest_approved_s3_model_location (registry_client reg) g (registry_client reg) arg
               = Inr (pkg_model_data_url p)"
    using m(2) p(2) registry_describe [OF assms(1) preg]
    by (simp add: get_latest_approved_s3_model_location_def registry_list_approved)
  have ver: "get_latest_approved_model_version g (registry_client reg) arg = Inr (pkg_version p)"
    using m(2) p(2)
    by (simp add: get_latest_approved_model_version_def registry_list_approved)
  from p(1) mx loc ver show ?thesis by blast
qed

text \<open>
  C3 on the registry with the versions 1, 2 and 5, where 5 is not approved: the helpers
  return the location and the number of version 2.
\<close>

theorem resolver_latest_approved_witness:
  "distinct (map pkg_arn registry_1_2_5)
   \<and> approved_in registry_1_2_5 ''defect-detection-img-classification-demo'' \<noteq> []
   \<and> get_latest_approved_s3_model_location (registry_client registry_1_2_5)
        ''defect-detection-img-classification-demo'' (registry_client registry_1_2_5)
        ''defect-detection-img-classification-demo'' = Inr ''s3://models/v2/model.tar.gz''
   \<and> get_latest_approved_model_version ''defect-detection-img-classification-demo''
        (registry_client registry_1_2_5) ''defect-detection-img-classification-demo'' = Inr 2"
proof -
  have d: "distinct (map pkg_arn registry_1_2_5)"
    by (simp add: registry_1_2_5_def)
  have a: "approved_in registry_1_2_5 ''defect-detection-img-classification-demo'' \<noteq> []"
    by (simp add: registry_1_2_5_def approved_in_def)
  from resolver_latest_approved [OF d a, of "''defect-detection-img-classification-demo''"]
  show ?thesis using d a
    by (auto simp: registry_1_2_5_def approved_in_def)
qed

text \<open>
  Claim C2 is not met by the code: on a registry whose group has no approved package the
  listing is empty and both helpers end with the \<^verbatim>\<open>ValueError\<close> of \<^verbatim>\<open>max\<close> on an empty
  sequence, not with a failure of their own.
\<close>

theorem resolver_no_approved_model:
  "get_latest_approved_s3_model_location (registry_client registry_unapproved)
      ''defect-detection-img-classification-demo'' (registry_client registry_unapproved)
      ''defect-detection-img-classification-demo''
     = Inl (ValueError ''max() arg is an empty sequence'')
   \<and> get_latest_approved_model_version ''defect-detection-img-classification-demo''
        (registry_client registry_unapproved) ''defect-detection-img-classification-demo''
     = Inl (ValueError ''max() arg is an empty sequence'')
   \<and> list_model_packages (registry_client registry_unapproved)
        ''defect-detection-img-classification-demo'' ''Approved'' = []"
  by (simp add: get_latest_approved_s3_model_location_def get_latest_approved_model_version_def
      registry_client_def registry_unapproved_def)

text \<open>
  Claim C9. The results of both helpers do not depend on the argument
  \<^verbatim>\<open>model_package_group\<close>: the listing is made for the global
  \<^verbatim>\<open>model_package_group_name\<close>. On the example registry, asked for \<^verbatim>\<open>other-group\<close>
  (whose only version is 7), the helpers return version 2 of the global's group, and
  version 7 only once the global names \<^verbatim>\<open>other-group\<close>.
\<close>

theorem resolver_ignores_group_argument:
  "get_latest_approved_s3_model_location sm_client_g group_g client group1
     = get_latest_approved_s3_model_location sm_client_g group_g client group2
   \<and> get_latest_approved_model_version group_g client group1
     = get_latest_approved_model_version group_g client group2
   \<and> get_latest_approved_model_version ''defect-detection-img-classification-demo''
        (registry_client registry_1_2_5) ''other-group'' = Inr 2
   \<and> get_latest_approved_model_version ''other-group''
        (registry_client registry_1_2_5) ''other-group'' = Inr 7
   \<and> get_latest_approved_s3_model_location (registry_client registry_1_2_5)
        ''defect-detection-img-classification-demo'' (registry_client registry_1_2_5)
        ''other-group'' = Inr ''s3://models/v2/model.tar.gz''"
  by (simp add: get_latest_approved_s3_model_location_def get_latest_approved_model_version_def
      registry_client_def registry_1_2_5_def)

section \<open>Facts about the polling loop\<close>

lemma first_terminal_iff:
  "first_terminal status k \<longleftrightarrow>
     (\<forall>j<k. status j \<in> set [''STARTING'', ''INPROGRESS''])
     \<and> status k \<notin> set [''STARTING'', ''INPROGRESS'']"
  by (auto simp: first_terminal_def list_all_iff)

lemma poll_job_terminates:
  "\<forall>j<k. status (describe (n + j)) \<in> set [''STARTING'', ''INPROGRESS''] \<Longrightarrow>
   status (describe (n + k)) \<notin> set [''STARTING'', ''INPROGRESS''] \<Longrightarrow>
   poll_job describe status call shown n lg =
     Some (describe (n + k), lg @ polling_log call shown (status (describe (n + k))) k)"
proof (induction k arbitrary: n lg)
  case 0
  then show ?case
    by (subst poll_job.simps) (simp add: Let_def polling_log_def)
next
  case (Suc k)
  have a: "status (describe n) \<in> set [''STARTING'', ''INPROGRESS'']"
    using Suc.prems(1) [rule_format, of 0] by simp
  have b: "\<forall>j<k. status (describe (Suc n + j)) \<in> set [''STARTING'', ''INPROGRESS'']"
    using Suc.prems(1) by (metis Suc_less_eq add_Suc_shift)
  have c: "status (describe (Suc n + k)) \<notin> set [''STARTING'', ''INPROGRESS'']"
    using Suc.prems(2) by simp
  show ?case
    using a Suc.IH [OF b c]
    by (subst poll_job.simps) (simp add: Let_def polling_log_def)
qed

lemma poll_job_result:
  assumes "first_terminal (\<lambda>j. status (describe j)) k"
  shows "poll_job describe status call shown 0 lg =
           Some (describe k, lg @ polling_log call shown (status (describe k)) k)"
  using assms poll_job_terminates [of k status describe 0 call shown lg]
  by (simp add: first_terminal_iff)

lemma poll_job_Some_terminal:
  assumes "poll_job describe status call shown n lg = Some r"
  shows "\<exists>k. status (describe (n + k)) \<notin> set [''STARTING'', ''INPROGRESS'']"
proof (rule poll_job.raw_induct
    [where P = "\<lambda>d st c sh n lg r. \<exists>k. st (d (n + k)) \<notin> set [''STARTING'', ''INPROGRESS'']",
     OF _ assms])
  fix poll :: "(nat \<Rightarrow> 'a) \<Rightarrow> ('a \<Rightarrow> string) \<Rightarrow> event \<Rightarrow> string \<Rightarrow> nat \<Rightarrow> event list
     \<Rightarrow> ('a \<times> event list) option"
    and d st c sh n lg r
  assume ih: "\<And>d st c sh n lg r. poll d st c sh n lg = Some r \<Longrightarrow>
                \<exists>k. st (d (n + k)) \<notin> set [''STARTING'', ''INPROGRESS'']"
    and eq: "(let resp = d n; lg1 = lg @ [c] in
              if st resp \<in> set [''STARTING'', ''INPROGRESS'']
              then poll d st c sh (Suc n) (lg1 @ [Print ''.'', Sleep 5])
              else Some (resp, lg1 @ [Print (st resp @ '' '' @ sh @ nl)])) = Some r"
  show "\<exists>k. st (d (n + k)) \<notin> set [''STARTING'', ''INPROGRESS'']"
  proof (cases "st (d n) \<in> set [''STARTING'', ''INPROGRESS'']")
    case True
    with eq have "poll d st c sh (Suc n) ((lg @ [c]) @ [Print ''.'', Sleep 5]) = Some r"
      by (simp add: Let_def)
    from ih [OF this] obtain k
      where "st (d (Suc n + k)) \<notin> set [''STARTING'', ''INPROGRESS'']" by blast
    then have "st (d (n + Suc k)) \<notin> set [''STARTING'', ''INPROGRESS'']" by simp
    then show ?thesis by blast
  next
    case False
    then have "st (d (n + 0)) \<notin> set [''STARTING'', ''INPROGRESS'']" by simp
    then show ?thesis by blast
  qed
qed

lemma first_terminal_exists:
  fixes status :: "nat \<Rightarrow> string"
  assumes "status m \<notin> set [''STARTING'', ''INPROGRESS'']"
  shows "\<exists>k\<le>m. first_terminal status k"
proof -
  let ?T = "\<lambda>k::nat. status k \<notin> set [''STARTING'', ''INPROGRESS'']"
  have "?T (LEAST k. ?T k)" using assms by (rule LeastI [of ?T])
  moreover have "(LEAST k. ?T k) \<le> m" using assms by (rule Least_le [of ?T])
  moreover have "\<forall>j<(LEAST k. ?T k). \<not> ?T j" using not_less_Least by blast
  ultimately show ?thesis unfolding first_terminal_iff by blast
qed

lemma poll_job_None:
  assumes "\<forall>k. status (describe k) \<in> set [''STARTING'', ''INPROGRESS'']"
  shows "poll_job describe status call shown 0 lg = None"
proof (cases "poll_job describe status call shown 0 lg")
  case None
  then show ?thesis .
next
  case (Some r)
  from poll_job_Some_terminal [OF Some] assms show ?thesis by auto
qed

lemma poll_job_None_iff:
  "poll_job describe status call shown 0 lg = None
     \<longleftrightarrow> (\<forall>k. \<not> first_terminal (\<lambda>j. status (describe j)) k)"
proof
  assume n: "poll_job describe status call shown 0 lg = None"
  show "\<forall>k. \<not> first_terminal (\<lambda>j. status (describe j)) k"
  proof (intro allI notI)
    fix k assume "first_terminal (\<lambda>j. status (describe j)) k"
    from poll_job_result [where status = status and describe = describe, OF this, of call shown lg] n
    show False by simp
  qed
next
  assume a: "\<forall>k. \<not> first_terminal (\<lambda>j. status (describe j)) k"
  have "\<forall>k. status (describe k) \<in> set [''STARTING'', ''INPROGRESS'']"
  proof (rule ccontr)
    assume "\<not> (\<forall>k. status (describe k) \<in> set [''STARTING'', ''INPROGRESS''])"
    then obtain m where "status (describe m) \<notin> set [''STARTING'', ''INPROGRESS'']" by blast
    from first_terminal_exists [of "\<lambda>j. status (describe j)", OF this] a show False by blast
  qed
  then show "poll_job describe status call shown 0 lg = None" by (rule poll_job_None)
qed

lemma filter_polling_log:
  "\<not> P call \<Longrightarrow> (\<And>t. \<not> P (Print t)) \<Longrightarrow> \<not> P (Sleep 5) \<Longrightarrow>
     filter P (polling_log call shown final k) = []"
  by (induction k) (simp_all add: polling_log_def)

lemma compilation_poll_result:
  assumes "compilation_job_name s = Some name"
    and "first_terminal (\<lambda>j. CompilationJobStatus (describe_compilation_job w j name)) k"
  shows "compilation_poll w s =
     Some (Done (if CompilationJobStatus (describe_compilation_job w k name) = ''COMPLETED''
       then s\<lparr>s3_compiled_model_artifact_location_fullpath :=
                 Some (S3ModelArtifacts (ModelArtifacts (describe_compilation_job w k name))),
               log := log s @ polling_log (DescribeCompilationJob name) name ''COMPLETED'' k
                 @ [Print (''Compiled artifact location in S3: ''
                      @ S3ModelArtifacts (ModelArtifacts (describe_compilation_job w k name))
                      @ nl)]\<rparr>
       else s\<lparr>log := log s @ polling_log (DescribeCompilationJob name) name
                 (CompilationJobStatus (describe_compilation_job w k name)) k\<rparr>))"
  using assms(1)
    poll_job_result [of CompilationJobStatus "\<lambda>n. describe_compilation_job w n name" k
      "DescribeCompilationJob name" name "log s", OF assms(2)]
  by (simp add: compilation_poll_def Let_def)

lemma packaging_poll_result:
  assumes "edge_packaging_job_name s = Some name" and "compilation_job_name s = Some cjn"
    and "first_terminal (\<lambda>j. EdgePackagingJobStatus (describe_edge_packaging_job w j name)) k"
  shows "packaging_poll w s =
     Some (Done (if EdgePackagingJobStatus (describe_edge_packaging_job w k name) = ''COMPLETED''
       then s\<lparr>s3_packaged_model_artifact_location_fullpath :=
                 Some (ModelArtifact (describe_edge_packaging_job w k name)),
               log := log s @ polling_log (DescribeEdgePackagingJob name) cjn ''COMPLETED'' k
                 @ [Print (''Packaged artifact location in S3: ''
                      @ ModelArtifact (describe_edge_packaging_job w k name) @ nl)]\<rparr>
       else s\<lparr>log := log s @ polling_log (DescribeEdgePackagingJob name) cjn
                 (EdgePackagingJobStatus (describe_edge_packaging_job w k name)) k\<rparr>))"
  using assms(1,2)
    poll_job_result [of EdgePackagingJobStatus "\<lambda>n. describe_edge_packaging_job w n name" k
      "DescribeEdgePackagingJob name" cjn "log s", OF assms(3)]
  by (simp add: packaging_poll_def Let_def)

section \<open>Facts about a run of the edge cells\<close>

lemma location_ok_version_ok:
  "get_latest_approved_s3_model_location smc g c a = Inr loc \<Longrightarrow>
     \<exists>v. get_latest_approved_model_version g c a' = Inr v"
  by (auto simp: get_latest_approved_s3_model_location_def
        get_latest_approved_model_version_def Let_def split: sum.splits)


lemma compilation_status_fun:
  "compilation_status w = (\<lambda>j. CompilationJobStatus (describe_compilation_job w j (compilation_name w)))"
  by (simp add: fun_eq_iff compilation_status_def)

lemma packaging_status_fun:
  "packaging_status w = (\<lambda>j. EdgePackagingJobStatus (describe_edge_packaging_job w j (packaging_name w)))"
  by (simp add: fun_eq_iff packaging_status_def)

lemma packaging_name_Suc:
  "format_s_d ''img-classification'' (py_int (time_time w (Suc 0) * 1000)) = packaging_name w"
  by (simp add: packaging_name_def)

lemma compilation_polls:
  assumes "first_terminal (compilation_status w) k"
  shows "poll_job (\<lambda>n. describe_compilation_job w n (compilation_name w)) CompilationJobStatus
           (DescribeCompilationJob (compilation_name w)) (compilation_name w) 0 lg
         = Some (describe_compilation_job w k (compilation_name w),
                 lg @ polling_log (DescribeCompilationJob (compilation_name w))
                        (compilation_name w) (compilation_status w k) k)"
  using poll_job_result [where status = CompilationJobStatus
      and describe = "\<lambda>n. describe_compilation_job w n (compilation_name w)" and k = k] assms
  by (simp add: compilation_status_fun)

lemma packaging_polls:
  assumes "first_terminal (packaging_status w) k"
  shows "poll_job (\<lambda>n. describe_edge_packaging_job w n (packaging_name w)) EdgePackagingJobStatus
           (DescribeEdgePackagingJob (packaging_name w)) (compilation_name w) 0 lg
         = Some (describe_edge_packaging_job w k (packaging_name w),
                 lg @ polling_log (DescribeEdgePackagingJob (packaging_name w))
                        (compilation_name w) (packaging_status w k) k)"
  using poll_job_result [where status = EdgePackagingJobStatus
      and describe = "\<lambda>n. describe_edge_packaging_job w n (packaging_name w)" and k = k] assms
  by (simp add: packaging_status_fun)

lemma compilation_never_polls:
  assumes "\<forall>k. \<not> first_terminal (compilation_status w) k"
  shows "poll_job (\<lambda>n. describe_compilation_job w n (compilation_name w)) CompilationJobStatus
           (DescribeCompilationJob (compilation_name w)) (compilation_name w) 0 lg = None"
  using assms
    poll_job_None_iff [where status = CompilationJobStatus
      and describe = "\<lambda>n. describe_compilation_job w n (compilation_name w)"]
  by (simp add: compilation_status_fun)

lemma packaging_never_polls:
  assumes "\<forall>k. \<not> first_terminal (packaging_status w) k"
  shows "poll_job (\<lambda>n. describe_edge_packaging_job w n (packaging_name w)) EdgePackagingJobStatus
           (DescribeEdgePackagingJob (packaging_name w)) (compilation_name w) 0 lg = None"
  using assms
    poll_job_None_iff [where status = EdgePackagingJobStatus
      and describe = "\<lambda>n. describe_edge_packaging_job w n (packaging_name w)"]
  by (simp add: packaging_status_fun)

lemmas cell_defs =
  run_notebook_def run_from_def compilation_cell_def compilation_submit_def
  compilation_poll_def packaging_cell_def packaging_submit_def packaging_poll_def
  split_cell_def dispatch_cell_def fresh_def Let_def

lemma run_notebook_resolver_fails:
  assumes "get_latest_approved_s3_model_location (sm_client w) (model_package_group_name cfg)
             (sm_client w) (model_package_group_name cfg) = Inl e"
  shows "run_notebook w cfg = Some (Raised e fresh)"
  using assms by (simp add: cell_defs)

text \<open>
  The whole run, when the resolver finds a model and both loops end: the last cell runs
  if the packaging job is reported \<^verbatim>\<open>COMPLETED\<close>; otherwise the split cell stops the run
  with the \<^verbatim>\<open>NameError\<close> of the variable the packaging cell did not assign.
\<close>

lemma run_notebook_result:
  assumes loc: "get_latest_approved_s3_model_location (sm_client w) (model_package_group_name cfg)
             (sm_client w) (model_package_group_name cfg) = Inr loc"
    and ver: "get_latest_approved_model_version (model_package_group_name cfg)
             (sm_client w) (model_package_group_name cfg) = Inr v"
    and ftc: "first_terminal (compilation_status w) kc"
    and ftp: "first_terminal (packaging_status w) kp"
    and spl: "split_s3_path (ModelArtifact (describe_edge_packaging_job w kp (packaging_name w)))
                = Inr (b, k)"
  shows "run_notebook w cfg =
           Some (if packaging_status w kp = ''COMPLETED''
                 then Done (dispatched_state w cfg loc v kc kp b k)
                 else Raised (NameError ''s3_packaged_model_artifact_location_fullpath'')
                        (packaged_state w cfg loc v kc kp))"
  using loc ver spl compilation_polls [OF ftc] packaging_polls [OF ftp]
  by (simp add: cell_defs compilation_name_def [symmetric] packaging_name_Suc
        compilation_status_def [symmetric] packaging_status_def [symmetric]
        dispatched_state_def packaged_state_def compilation_events_def packaging_events_def
        packaging_request_def iot_request_def)

lemma run_notebook_compilation_hangs:
  assumes loc: "get_latest_approved_s3_model_location (sm_client w) (model_package_group_name cfg)
             (sm_client w) (model_package_group_name cfg) = Inr loc"
    and nt: "\<forall>k. \<not> first_terminal (compilation_status w) k"
  shows "run_notebook w cfg = None"
  using loc compilation_never_polls [OF nt]
  by (simp add: cell_defs compilation_name_def [symmetric])

lemma run_notebook_packaging_hangs:
  assumes loc: "get_latest_approved_s3_model_location (sm_client w) (model_package_group_name cfg)
             (sm_client w) (model_package_group_name cfg) = Inr loc"
    and ver: "get_latest_approved_model_version (model_package_group_name cfg)
             (sm_client w) (model_package_group_name cfg) = Inr v"
    and ftc: "first_terminal (compilation_status w) kc"
    and nt: "\<forall>k. \<not> first_terminal (packaging_status w) k"
  shows "run_notebook w cfg = None"
  using loc ver compilation_polls [OF ftc] packaging_never_polls [OF nt]
  by (simp add: cell_defs compilation_name_def [symmetric] packaging_name_Suc)

lemma run_notebook_Some_cases:
  assumes run: "run_notebook w cfg = Some out"
  obtains (resolver) e where
      "get_latest_approved_s3_model_location (sm_client w) (model_package_group_name cfg)
         (sm_client w) (model_package_group_name cfg) = Inl e"
      "out = Raised e fresh"
  | (polled) loc v kc kp b k where
      "get_latest_approved_s3_model_location (sm_client w) (model_package_group_name cfg)
         (sm_client w) (model_package_group_name cfg) = Inr loc"
      "get_latest_approved_model_version (model_package_group_name cfg)
         (sm_client w) (model_package_group_name cfg) = Inr v"
      "first_terminal (compilation_status w) kc"
      "first_terminal (packaging_status w) kp"
      "split_s3_path (ModelArtifact (describe_edge_packaging_job w kp (packaging_name w)))
         = Inr (b, k)"
      "out = (if packaging_status w kp = ''COMPLETED''
              then Done (dispatched_state w cfg loc v kc kp b k)
              else Raised (NameError ''s3_packaged_model_artifact_location_fullpath'')
                     (packaged_state w cfg loc v kc kp))"
proof (cases "get_latest_approved_s3_model_location (sm_client w) (model_package_group_name cfg)
         (sm_client w) (model_package_group_name cfg)")
  case (Inl e)
  from run_notebook_resolver_fails [OF Inl] run have "out = Raised e fresh" by simp
  with Inl show ?thesis by (rule resolver)
next
  case (Inr loc)
  from location_ok_version_ok [OF Inr] obtain v
    where ver: "get_latest_approved_model_version (model_package_group_name cfg)
         (sm_client w) (model_package_group_name cfg) = Inr v" by blast
  have "\<exists>kc. first_terminal (compilation_status w) kc"
  proof (rule ccontr)
    assume "\<not> (\<exists>kc. first_terminal (compilation_status w) kc)"
    then have "\<forall>k. \<not> first_terminal (compilation_status w) k" by blast
    from run_notebook_compilation_hangs [OF Inr this] run show False by simp
  qed
  then obtain kc where ftc: "first_terminal (compilation_status w) kc" ..
  have "\<exists>kp. first_terminal (packaging_status w) kp"
  proof (rule ccontr)
    assume "\<not> (\<exists>kp. first_terminal (packaging_status w) kp)"
    then have "\<forall>k. \<not> first_terminal (packaging_status w) k" by blast
    from run_notebook_packaging_hangs [OF Inr ver ftc this] run show False by simp
  qed
  then obtain kp where ftp: "first_terminal (packaging_status w) kp" ..
  from split_s3_path_total obtain b k
    where spl: "split_s3_path (ModelArtifact (describe_edge_packaging_job w kp (packaging_name w)))
         = Inr (b, k)" by blast
  from run_notebook_result [OF Inr ver ftc ftp spl] run
  have "out = (if packaging_status w kp = ''COMPLETED''
              then Done (dispatched_state w cfg loc v kc kp b k)
              else Raised (NameError ''s3_packaged_model_artifact_location_fullpath'')
                     (packaged_state w cfg loc v kc kp))" by simp
  with Inr ver ftc ftp spl show ?thesis by (rule polled)
qed

lemma create_jobs_packaged [simp]:
  "filter is_create_job (log (packaged_state w cfg loc v kc kp)) = []"
  by (simp add: packaged_state_def compilation_events_def packaging_events_def
        filter_polling_log)

lemma create_jobs_dispatched [simp]:
  "filter is_create_job (log (dispatched_state w cfg loc v kc kp b k))
     = [CreateJob (iot_request w cfg v b k)]"
  by (simp add: dispatched_state_def compilation_events_def packaging_events_def
        filter_polling_log)

lemma create_edge_packaging_jobs_packaged [simp]:
  "filter is_create_edge_packaging_job (log (packaged_state w cfg loc v kc kp))
     = [CreateEdgePackagingJob (packaging_request w cfg v)]"
  by (simp add: packaged_state_def compilation_events_def packaging_events_def
        filter_polling_log)

lemma create_edge_packaging_jobs_dispatched [simp]:
  "filter is_create_edge_packaging_job (log (dispatched_state w cfg loc v kc kp b k))
     = [CreateEdgePackagingJob (packaging_request w cfg v)]"
  by (simp add: dispatched_state_def compilation_events_def packaging_events_def
        filter_polling_log)

lemma compilation_cell_fresh:
  assumes loc: "get_latest_approved_s3_model_location (sm_client w) (model_package_group_name cfg)
             (sm_client w) (model_package_group_name cfg) = Inr loc"
    and ftc: "first_terminal (compilation_status w) kc"
  shows "compilation_cell w cfg fresh =
     Some (Done (fresh\<lparr>s3_model_artifact_location := Some loc,
        model_name := Some ''img-classification'',
        compilation_job_name := Some (compilation_name w),
        s3_compiled_model_artifact_location_fullpath :=
          (if compilation_status w kc = ''COMPLETED''
           then Some (S3ModelArtifacts (ModelArtifacts
                   (describe_compilation_job w kc (compilation_name w))))
           else None),
        log := compilation_events w cfg loc kc\<rparr>))"
  using loc compilation_polls [OF ftc]
  by (simp add: cell_defs compilation_name_def [symmetric]
        compilation_status_def [symmetric] compilation_events_def)


text \<open>The example worlds.\<close>

lemma example_location:
  "get_latest_approved_s3_model_location (sm_client (scripted_world cs ps t0 t1))
      (model_package_group_name example_cfg) (sm_client (scripted_world cs ps t0 t1))
      (model_package_group_name example_cfg) = Inr ''s3://models/v2/model.tar.gz''"
  by (simp add: get_latest_approved_s3_model_location_def scripted_world_def
      registry_client_def registry_1_2_5_def model_package_group_name_def example_cfg_def)

lemma example_version:
  "get_latest_approved_model_version (model_package_group_name example_cfg)
      (sm_client (scripted_world cs ps t0 t1)) (model_package_group_name example_cfg) = Inr 2"
  by (simp add: get_latest_approved_model_version_def scripted_world_def
      registry_client_def registry_1_2_5_def model_package_group_name_def example_cfg_def)

lemma example_compilation_status:
  "compilation_status (scripted_world cs ps t0 t1) n = scripted cs n"
  by (simp add: compilation_status_def scripted_world_def)

lemma example_packaging_status:
  "packaging_status (scripted_world cs ps t0 t1) n = scripted ps n"
  by (simp add: packaging_status_def scripted_world_def)

lemma example_split:
  "split_s3_path (ModelArtifact (describe_edge_packaging_job (scripted_world cs ps t0 t1) n name))
     = Inr (''bucket-x'', ''path/to/model.tar.gz'')"
  by (simp add: scripted_world_def split_s3_path_def str_split_def str_replace_def pop0_def)

lemma example_document:
  "json_dumps
     [(''type'', ''new_model''), (''model_version'', str_int 2),
      (''model_name'', ''img-classification''), (''model_package_bucket'', ''bucket-x''),
      (''model_package_key'', ''path/to/model.tar.gz'')]
   = ''{'' @ [CHR 0x22] @ ''type'' @ [CHR 0x22] @ '': '' @ [CHR 0x22] @ ''new_model'' @ [CHR 0x22]
     @ '', '' @ [CHR 0x22] @ ''model_version'' @ [CHR 0x22] @ '': '' @ [CHR 0x22] @ ''2'' @ [CHR 0x22]
     @ '', '' @ [CHR 0x22] @ ''model_name'' @ [CHR 0x22] @ '': ''
         @ [CHR 0x22] @ ''img-classification'' @ [CHR 0x22]
     @ '', '' @ [CHR 0x22] @ ''model_package_bucket'' @ [CHR 0x22] @ '': ''
         @ [CHR 0x22] @ ''bucket-x'' @ [CHR 0x22]
     @ '', '' @ [CHR 0x22] @ ''model_package_key'' @ [CHR 0x22] @ '': ''
         @ [CHR 0x22] @ ''path/to/model.tar.gz'' @ [CHR 0x22] @ ''}''"
  by code_simp

section \<open>Gating of the stages\<close>

text \<open>
  Claim C1, as amended. In a run of the edge cells from a fresh kernel in which the
  resolver finds an approved model and both polling loops end, the run returns, and the
  IoT job is created if and only if the packaging job ended \<^verbatim>\<open>COMPLETED\<close>; the final
  status of the compilation job plays no part. When the packaging job ended otherwise,
  the run has stopped at the split cell, and the last cell run on its own raises
  \<^verbatim>\<open>NameError\<close> before it calls \<^verbatim>\<open>create_job\<close>.
\<close>

theorem dispatch_iff_packaging_completed:
  assumes "get_latest_approved_s3_model_location (sm_client w) (model_package_group_name cfg)
             (sm_client w) (model_package_group_name cfg) = Inr loc"
    and "first_terminal (compilation_status w) kc"
    and "first_terminal (packaging_status w) kp"
  shows "\<exists>out. run_notebook w cfg = Some out
           \<and> (create_jobs out \<noteq> [] \<longleftrightarrow> packaging_status w kp = ''COMPLETED'')
           \<and> (packaging_status w kp \<noteq> ''COMPLETED'' \<longrightarrow>
                 dispatch_cell w cfg (final_state out)
                   = Raised (NameError ''model_bucket'') (final_state out))"
proof -
  from location_ok_version_ok [OF assms(1)] obtain v
    where ver: "get_latest_approved_model_version (model_package_group_name cfg)
         (sm_client w) (model_package_group_name cfg) = Inr v" by blast
  from split_s3_path_total obtain b k
    where spl: "split_s3_path (ModelArtifact (describe_edge_packaging_job w kp (packaging_name w)))
         = Inr (b, k)" by blast
  have d: "dispatch_cell w cfg (packaged_state w cfg loc v kc kp)
             = Raised (NameError ''model_bucket'') (packaged_state w cfg loc v kc kp)"
    by (simp add: dispatch_cell_def packaged_state_def)
  from run_notebook_result [OF assms(1) ver assms(2,3) spl] d
  show ?thesis by (simp add: create_jobs_def)
qed

text \<open>
  C1 in a world whose compilation job completes at the second request and whose packaging
  job completes at the third: the IoT job is created.
\<close>

theorem dispatch_iff_packaging_completed_witness:
  "first_terminal (compilation_status
       (scripted_world [''INPROGRESS'', ''COMPLETED''] [''STARTING'', ''INPROGRESS'', ''COMPLETED''] 10 20)) 1
   \<and> first_terminal (packaging_status
       (scripted_world [''INPROGRESS'', ''COMPLETED''] [''STARTING'', ''INPROGRESS'', ''COMPLETED''] 10 20)) 2
   \<and> (\<exists>out. run_notebook
         (scripted_world [''INPROGRESS'', ''COMPLETED''] [''STARTING'', ''INPROGRESS'', ''COMPLETED''] 10 20)
         example_cfg = Some out \<and> create_jobs out \<noteq> [])"
proof -
  let ?w = "scripted_world [''INPROGRESS'', ''COMPLETED''] [''STARTING'', ''INPROGRESS'', ''COMPLETED''] 10 20"
  have c: "first_terminal (compilation_status ?w) 1"
    by (simp add: first_terminal_def example_compilation_status scripted_def)
  have p: "first_terminal (packaging_status ?w) 2"
    by (simp add: first_terminal_def example_packaging_status scripted_def upt_rec)
  from dispatch_iff_packaging_completed [OF example_location c p]
  show ?thesis using c p by (simp add: example_packaging_status scripted_def)
qed

text \<open>
  C1 as stated fails: with the compilation job reported \<^verbatim>\<open>FAILED\<close> and the packaging job
  reported \<^verbatim>\<open>COMPLETED\<close>, the run creates the IoT job.
\<close>

theorem dispatch_after_failed_compilation_counterexample:
  "compilation_status (scripted_world [''FAILED''] [''COMPLETED''] 10 20) 0 = ''FAILED''
   \<and> first_terminal (compilation_status (scripted_world [''FAILED''] [''COMPLETED''] 10 20)) 0
   \<and> map_option create_jobs (run_notebook (scripted_world [''FAILED''] [''COMPLETED''] 10 20) example_cfg)
       = Some [CreateJob (iot_request (scripted_world [''FAILED''] [''COMPLETED''] 10 20) example_cfg 2
                 ''bucket-x'' ''path/to/model.tar.gz'')]"
proof -
  let ?w = "scripted_world [''FAILED''] [''COMPLETED''] 10 20"
  have c: "first_terminal (compilation_status ?w) 0"
    by (simp add: first_terminal_def example_compilation_status scripted_def)
  have p: "first_terminal (packaging_status ?w) 0"
    by (simp add: first_terminal_def example_packaging_status scripted_def)
  from run_notebook_result [OF example_location example_version c p example_split]
  show ?thesis using c
    by (simp add: example_packaging_status example_compilation_status scripted_def create_jobs_def)
qed

text \<open>
  Claim C4, as amended. In a run from a fresh kernel in which the resolver finds an
  approved model and the compilation loop ends, with whatever status, the compilation cell
  ends without an exception, having assigned the compiled-artifact variable exactly when
  the status is \<^verbatim>\<open>COMPLETED\<close>; the packaging cell that follows submits the
  \<^verbatim>\<open>create_edge_packaging_job\<close> request, naming that compilation job, as its next event.
\<close>

theorem packaging_submitted_after_any_compilation_status:
  assumes "get_latest_approved_s3_model_location (sm_client w) (model_package_group_name cfg)
             (sm_client w) (model_package_group_name cfg) = Inr loc"
    and "get_latest_approved_model_version (model_package_group_name cfg)
             (sm_client w) (model_package_group_name cfg) = Inr v"
    and "first_terminal (compilation_status w) kc"
  shows "\<exists>s1. compilation_cell w cfg fresh = Some (Done s1)
           \<and> log s1 = compilation_events w cfg loc kc
           \<and> (s3_compiled_model_artifact_location_fullpath s1 \<noteq> None
                \<longleftrightarrow> compilation_status w kc = ''COMPLETED'')
           \<and> packaging_submit w cfg s1 =
               Done (s1\<lparr>edge_packaging_job_name := Some (packaging_name w),
                        model_version := Some (str_int v),
                        log := compilation_events w cfg loc kc @
                          [CreateEdgePackagingJob
                             \<lparr>ep_EdgePackagingJobName = packaging_name w,
                              ep_CompilationJobName = compilation_name w,
                              ep_ModelName = ''img-classification'',
                              ep_ModelVersion = str_int v,
                              ep_RoleArn = role cfg,
                              ep_OutputConfig_S3OutputLocation =
                                s3_edgepackaging_output_location cfg\<rparr>,
                           Print ''Started edge packaging job .'']\<rparr>)"
  using assms(2) compilation_cell_fresh [OF assms(1,3)]
  by (simp add: packaging_submit_def Let_def packaging_name_Suc fresh_def)

text \<open>C4 in a world whose compilation job is reported \<^verbatim>\<open>FAILED\<close> at the second request.\<close>

theorem packaging_submitted_after_any_compilation_status_witness:
  "first_terminal (compilation_status (scripted_world [''INPROGRESS'', ''FAILED''] [''FAILED''] 10 20)) 1
   \<and> compilation_status (scripted_world [''INPROGRESS'', ''FAILED''] [''FAILED''] 10 20) 1 = ''FAILED''
   \<and> (\<exists>s1. compilation_cell (scripted_world [''INPROGRESS'', ''FAILED''] [''FAILED''] 10 20)
              example_cfg fresh = Some (Done s1)
         \<and> s3_compiled_model_artifact_location_fullpath s1 = None
         \<and> create_edge_packaging_jobs (final_state (packaging_submit
              (scripted_world [''INPROGRESS'', ''FAILED''] [''FAILED''] 10 20) example_cfg s1))
            = [CreateEdgePackagingJob (packaging_request
                 (scripted_world [''INPROGRESS'', ''FAILED''] [''FAILED''] 10 20) example_cfg 2)])"
proof -
  let ?w = "scripted_world [''INPROGRESS'', ''FAILED''] [''FAILED''] 10 20"
  have c: "first_terminal (compilation_status ?w) 1"
    by (simp add: first_terminal_def example_compilation_status scripted_def)
  have f: "compilation_status ?w 1 = ''FAILED''"
    by (simp add: example_compilation_status scripted_def)
  from packaging_submitted_after_any_compilation_status
         [OF example_location example_version c]
  obtain s1 where s1: "compilation_cell ?w example_cfg fresh = Some (Done s1)"
      "log s1 = compilation_events ?w example_cfg ''s3://models/v2/model.tar.gz'' 1"
      "s3_compiled_model_artifact_location_fullpath s1 \<noteq> None
         \<longleftrightarrow> compilation_status ?w 1 = ''COMPLETED''"
      "packaging_submit ?w example_cfg s1 =
         Done (s1\<lparr>edge_packaging_job_name := Some (packaging_name ?w),
                  model_version := Some (str_int 2),
                  log := compilation_events ?w example_cfg ''s3://models/v2/model.tar.gz'' 1 @
                    [CreateEdgePackagingJob
                       \<lparr>ep_EdgePackagingJobName = packaging_name ?w,
                        ep_CompilationJobName = compilation_name ?w,
                        ep_ModelName = ''img-classification'',
                        ep_ModelVersion = str_int 2,
                        ep_RoleArn = role example_cfg,
                        ep_OutputConfig_S3OutputLocation =
                          s3_edgepackaging_output_location example_cfg\<rparr>,
                     Print ''Started edge packaging job .'']\<rparr>)"
    by blast
  have n: "s3_compiled_model_artifact_location_fullpath s1 = None"
    using s1(3) f by simp
  have e: "create_edge_packaging_jobs (final_state (packaging_submit ?w example_cfg s1))
            = [CreateEdgePackagingJob (packaging_request ?w example_cfg 2)]"
    unfolding s1(4)
    by (simp add: create_edge_packaging_jobs_def compilation_events_def filter_polling_log
          packaging_request_def)
  from c f s1(1) n e show ?thesis by blast
qed

text \<open>
  C4 as stated fails: the compilation loop exits with \<^verbatim>\<open>FAILED\<close>, and the log of the run
  holds a \<^verbatim>\<open>create_edge_packaging_job\<close> request.
\<close>

theorem packaging_after_failed_compilation_counterexample:
  "compilation_status (scripted_world [''INPROGRESS'', ''FAILED''] [''FAILED''] 10 20) 1 = ''FAILED''
   \<and> first_terminal (compilation_status (scripted_world [''INPROGRESS'', ''FAILED''] [''FAILED''] 10 20)) 1
   \<and> map_option (\<lambda>out. create_edge_packaging_jobs (final_state out))
        (run_notebook (scripted_world [''INPROGRESS'', ''FAILED''] [''FAILED''] 10 20) example_cfg)
       = Some [CreateEdgePackagingJob (packaging_request
                 (scripted_world [''INPROGRESS'', ''FAILED''] [''FAILED''] 10 20) example_cfg 2)]"
proof -
  let ?w = "scripted_world [''INPROGRESS'', ''FAILED''] [''FAILED''] 10 20"
  have c: "first_terminal (compilation_status ?w) 1"
    by (simp add: first_terminal_def example_compilation_status scripted_def)
  have p: "first_terminal (packaging_status ?w) 0"
    by (simp add: first_terminal_def example_packaging_status scripted_def)
  from run_notebook_result [OF example_location example_version c p example_split]
  show ?thesis using c
    by (simp add: example_packaging_status example_compilation_status scripted_def
          create_edge_packaging_jobs_def)
qed

section \<open>Job names\<close>




section \<open>The polling stages\<close>

text \<open>
  Claim C7, as amended. When the \<open>k\<close>-th status is the first outside
  \<^verbatim>\<open>['STARTING', 'INPROGRESS']\<close>, the loop of either stage makes \<open>k\<close> requests each
  followed by a dot and a sleep of 5 seconds, then the request that reads the final
  status, and ends. The artifact variable of the stage is assigned, to the location in
  that last response, exactly when the status is \<^verbatim>\<open>COMPLETED\<close>; on any other status the
  stage prints the status, leaves its variables as they were and ends without raising.
\<close>

theorem polling_stage_results:
  "(compilation_job_name s = Some name
      \<and> first_terminal (\<lambda>j. CompilationJobStatus (describe_compilation_job w j name)) k
    \<longrightarrow> compilation_poll w s =
     Some (Done (if CompilationJobStatus (describe_compilation_job w k name) = ''COMPLETED''
       then s\<lparr>s3_compiled_model_artifact_location_fullpath :=
                 Some (S3ModelArtifacts (ModelArtifacts (describe_compilation_job w k name))),
               log := log s @ polling_log (DescribeCompilationJob name) name ''COMPLETED'' k
                 @ [Print (''Compiled artifact location in S3: ''
                      @ S3ModelArtifacts (ModelArtifacts (describe_compilation_job w k name))
                      @ nl)]\<rparr>
       else s\<lparr>log := log s @ polling_log (DescribeCompilationJob name) name
                 (CompilationJobStatus (describe_compilation_job w k name)) k\<rparr>)))
   \<and> (edge_packaging_job_name s = Some pname \<and> compilation_job_name s = Some name
      \<and> first_terminal (\<lambda>j. EdgePackagingJobStatus (describe_edge_packaging_job w j pname)) k'
    \<longrightarrow> packaging_poll w s =
     Some (Done (if EdgePackagingJobStatus (describe_edge_packaging_job w k' pname) = ''COMPLETED''
       then s\<lparr>s3_packaged_model_artifact_location_fullpath :=
                 Some (ModelArtifact (describe_edge_packaging_job w k' pname)),
               log := log s @ polling_log (DescribeEdgePackagingJob pname) name ''COMPLETED'' k'
                 @ [Print (''Packaged artifact location in S3: ''
                      @ ModelArtifact (describe_edge_packaging_job w k' pname) @ nl)]\<rparr>
       else s\<lparr>log := log s @ polling_log (DescribeEdgePackagingJob pname) name
                 (EdgePackagingJobStatus (describe_edge_packaging_job w k' pname)) k'\<rparr>)))
   \<and> polling_log call name final k
       = concat (replicate k [call, Print ''.'', Sleep 5]) @ [call, Print (final @ '' '' @ name @ nl)]"
  using compilation_poll_result [of s name w k] packaging_poll_result [of s pname name w k']
  by (simp add: polling_log_def)

text \<open>
  C7 on a compilation job that completes at the third request and a packaging job that
  fails at the second.
\<close>

theorem polling_stage_results_witness:
  "first_terminal (\<lambda>j. CompilationJobStatus (describe_compilation_job
       (scripted_world [''STARTING'', ''INPROGRESS'', ''COMPLETED''] [''INPROGRESS'', ''FAILED''] 10 20)
       j ''job-c'')) 2
   \<and> first_terminal (\<lambda>j. EdgePackagingJobStatus (describe_edge_packaging_job
       (scripted_world [''STARTING'', ''INPROGRESS'', ''COMPLETED''] [''INPROGRESS'', ''FAILED''] 10 20)
       j ''job-p'')) 1
   \<and> compilation_poll
        (scripted_world [''STARTING'', ''INPROGRESS'', ''COMPLETED''] [''INPROGRESS'', ''FAILED''] 10 20)
        (fresh\<lparr>compilation_job_name := Some ''job-c'', edge_packaging_job_name := Some ''job-p''\<rparr>)
      = Some (Done (fresh\<lparr>compilation_job_name := Some ''job-c'',
           edge_packaging_job_name := Some ''job-p'',
           s3_compiled_model_artifact_location_fullpath := Some ''s3://out/compiled/job-c.tar.gz'',
           log := [DescribeCompilationJob ''job-c'', Print ''.'', Sleep 5,
                   DescribeCompilationJob ''job-c'', Print ''.'', Sleep 5,
                   DescribeCompilationJob ''job-c'', Print (''COMPLETED job-c'' @ nl),
                   Print (''Compiled artifact location in S3: s3://out/compiled/job-c.tar.gz'' @ nl)]\<rparr>))
   \<and> packaging_poll
        (scripted_world [''STARTING'', ''INPROGRESS'', ''COMPLETED''] [''INPROGRESS'', ''FAILED''] 10 20)
        (fresh\<lparr>compilation_job_name := Some ''job-c'', edge_packaging_job_name := Some ''job-p''\<rparr>)
      = Some (Done (fresh\<lparr>compilation_job_name := Some ''job-c'',
           edge_packaging_job_name := Some ''job-p'',
           log := [DescribeEdgePackagingJob ''job-p'', Print ''.'', Sleep 5,
                   DescribeEdgePackagingJob ''job-p'', Print (''FAILED job-c'' @ nl)]\<rparr>))"
proof -
  let ?w = "scripted_world [''STARTING'', ''INPROGRESS'', ''COMPLETED''] [''INPROGRESS'', ''FAILED''] 10 20"
  let ?s = "fresh\<lparr>compilation_job_name := Some ''job-c'', edge_packaging_job_name := Some ''job-p''\<rparr>"
  have c: "first_terminal (\<lambda>j. CompilationJobStatus (describe_compilation_job ?w j ''job-c'')) 2"
    by (simp add: first_terminal_def scripted_world_def scripted_def upt_rec)
  have p: "first_terminal (\<lambda>j. EdgePackagingJobStatus (describe_edge_packaging_job ?w j ''job-p'')) 1"
    by (simp add: first_terminal_def scripted_world_def scripted_def)
  have n: "compilation_job_name ?s = Some ''job-c''" "edge_packaging_job_name ?s = Some ''job-p''"
    by (simp_all add: fresh_def)
  have r2: "replicate 2 x = [x, x]" for x :: "event list"
    by (simp add: numeral_2_eq_2)
  from polling_stage_results [of ?s "''job-c''" ?w 2 "''job-p''" 1] c p n
  have "compilation_poll ?w ?s = Some (Done (fresh\<lparr>compilation_job_name := Some ''job-c'',
           edge_packaging_job_name := Some ''job-p'',
           s3_compiled_model_artifact_location_fullpath := Some ''s3://out/compiled/job-c.tar.gz'',
           log := [DescribeCompilationJob ''job-c'', Print ''.'', Sleep 5,
                   DescribeCompilationJob ''job-c'', Print ''.'', Sleep 5,
                   DescribeCompilationJob ''job-c'', Print (''COMPLETED job-c'' @ nl),
                   Print (''Compiled artifact location in S3: s3://out/compiled/job-c.tar.gz'' @ nl)]\<rparr>))"
    and "packaging_poll ?w ?s = Some (Done (fresh\<lparr>compilation_job_name := Some ''job-c'',
           edge_packaging_job_name := Some ''job-p'',
           log := [DescribeEdgePackagingJob ''job-p'', Print ''.'', Sleep 5,
                   DescribeEdgePackagingJob ''job-p'', Print (''FAILED job-c'' @ nl)]\<rparr>))"
    by (simp_all add: scripted_world_def scripted_def polling_log_def fresh_def r2)
  with c p show ?thesis by blast
qed

text \<open>
  C7 as stated fails in its last part: on the status \<^verbatim>\<open>FAILED\<close> the compilation cell ends
  like a successful one, without an exception.
\<close>

theorem failed_compilation_not_surfaced_counterexample:
  "compilation_status (scripted_world [''FAILED''] [''COMPLETED''] 10 20) 0 = ''FAILED''
   \<and> first_terminal (compilation_status (scripted_world [''FAILED''] [''COMPLETED''] 10 20)) 0
   \<and> map_option raised
        (compilation_cell (scripted_world [''FAILED''] [''COMPLETED''] 10 20) example_cfg fresh)
       = Some False"
proof -
  let ?w = "scripted_world [''FAILED''] [''COMPLETED''] 10 20"
  have c: "first_terminal (compilation_status ?w) 0"
    by (simp add: first_terminal_def example_compilation_status scripted_def)
  from compilation_cell_fresh [OF example_location c]
  show ?thesis using c by (simp add: example_compilation_status scripted_def)
qed

section \<open>The fleet job\<close>

text \<open>
  Claim C8. Every \<^verbatim>\<open>create_job\<close> request in the log of a run is the only one, and it is
  the request with a fresh uuid as job id, the one thing-group ARN as target, snapshot
  target selection, and as document the JSON object of the five keys \<^verbatim>\<open>type\<close>
  (\<^verbatim>\<open>new_model\<close>), \<^verbatim>\<open>model_version\<close> (the latest approved version), \<^verbatim>\<open>model_name\<close>,
  \<^verbatim>\<open>model_package_bucket\<close> and \<^verbatim>\<open>model_package_key\<close> (the two parts of the packaged
  artifact's URI as \<^verbatim>\<open>split_s3_path\<close> returns them).
\<close>

theorem dispatch_job_document:
  assumes "run_notebook w cfg = Some out"
    and "CreateJob r \<in> set (log (final_state out))"
  shows "\<exists>v kp b k.
           get_latest_approved_model_version (model_package_group_name cfg)
             (sm_client w) (model_package_group_name cfg) = Inr v
         \<and> first_terminal (packaging_status w) kp
         \<and> packaging_status w kp = ''COMPLETED''
         \<and> split_s3_path (ModelArtifact (describe_edge_packaging_job w kp (packaging_name w)))
             = Inr (b, k)
         \<and> r = \<lparr>jobId = uuid4 w,
                 targets = [''arn:aws:iot:'' @ region cfg @ '':'' @ account_id cfg
                              @ '':thinggroup/defect-detection-'' @ PROJECT_NAME cfg @ ''-group''],
                 document = json_dumps
                   [(''type'', ''new_model''),
                    (''model_version'', str_int v),
                    (''model_name'', ''img-classification''),
                    (''model_package_bucket'', b),
                    (''model_package_key'', k)],
                 targetSelection = ''SNAPSHOT''\<rparr>
         \<and> create_jobs out = [CreateJob r]"
  using assms(1)
proof (cases rule: run_notebook_Some_cases)
  case (resolver e)
  with assms(2) show ?thesis by (simp add: fresh_def)
next
  case (polled loc v kc kp b k)
  from assms(2) have m: "CreateJob r \<in> set (filter is_create_job (log (final_state out)))"
    by simp
  show ?thesis
  proof (cases "packaging_status w kp = ''COMPLETED''")
    case True
    with polled(6) have out: "out = Done (dispatched_state w cfg loc v kc kp b k)" by simp
    from m have "r = iot_request w cfg v b k" unfolding out by simp
    then have r: "r = \<lparr>jobId = uuid4 w,
                 targets = [''arn:aws:iot:'' @ region cfg @ '':'' @ account_id cfg
                              @ '':thinggroup/defect-detection-'' @ PROJECT_NAME cfg @ ''-group''],
                 document = json_dumps
                   [(''type'', ''new_model''),
                    (''model_version'', str_int v),
                    (''model_name'', ''img-classification''),
                    (''model_package_bucket'', b),
                    (''model_package_key'', k)],
                 targetSelection = ''SNAPSHOT''\<rparr>"
      by (simp add: iot_request_def thing_group_arn_def)
    have cj: "create_jobs out = [CreateJob r]"
      unfolding out create_jobs_def using \<open>r = iot_request w cfg v b k\<close> by simp
    from polled(2,4,5) True r cj show ?thesis by blast
  next
    case False
    with polled(6) have out: "out = Raised (NameError ''s3_packaged_model_artifact_location_fullpath'')
                     (packaged_state w cfg loc v kc kp)" by simp
    from m show ?thesis unfolding out by simp
  qed
qed

text \<open>C8 on a run that dispatches, with the document written out.\<close>

theorem dispatch_job_document_witness:
  "run_notebook (scripted_world [''COMPLETED''] [''INPROGRESS'', ''COMPLETED''] 10 20) example_cfg
     = Some (Done (dispatched_state (scripted_world [''COMPLETED''] [''INPROGRESS'', ''COMPLETED''] 10 20)
         example_cfg ''s3://models/v2/model.tar.gz'' 2 0 1 ''bucket-x'' ''path/to/model.tar.gz''))
   \<and> create_jobs (Done (dispatched_state (scripted_world [''COMPLETED''] [''INPROGRESS'', ''COMPLETED''] 10 20)
         example_cfg ''s3://models/v2/model.tar.gz'' 2 0 1 ''bucket-x'' ''path/to/model.tar.gz''))
     = [CreateJob
          \<lparr>jobId = ''0b0f1c5e-7a52-4c1e-9d57-3f2a8f1f6a11'',
           targets = [''arn:aws:iot:eu-west-1:123456789012:thinggroup/defect-detection-demo-group''],
           document =
             ''{'' @ [CHR 0x22] @ ''type'' @ [CHR 0x22] @ '': '' @ [CHR 0x22] @ ''new_model'' @ [CHR 0x22]
             @ '', '' @ [CHR 0x22] @ ''model_version'' @ [CHR 0x22] @ '': '' @ [CHR 0x22] @ ''2'' @ [CHR 0x22]
             @ '', '' @ [CHR 0x22] @ ''model_name'' @ [CHR 0x22] @ '': ''
                 @ [CHR 0x22] @ ''img-classification'' @ [CHR 0x22]
             @ '', '' @ [CHR 0x22] @ ''model_package_bucket'' @ [CHR 0x22] @ '': ''
                 @ [CHR 0x22] @ ''bucket-x'' @ [CHR 0x22]
             @ '', '' @ [CHR 0x22] @ ''model_package_key'' @ [CHR 0x22] @ '': ''
                 @ [CHR 0x22] @ ''path/to/model.tar.gz'' @ [CHR 0x22] @ ''}'',
           targetSelection = ''SNAPSHOT''\<rparr>]"
proof -
  let ?w = "scripted_world [''COMPLETED''] [''INPROGRESS'', ''COMPLETED''] 10 20"
  let ?out = "Done (dispatched_state ?w example_cfg ''s3://models/v2/model.tar.gz'' 2 0 1
                ''bucket-x'' ''path/to/model.tar.gz'')"
  have c: "first_terminal (compilation_status ?w) 0"
    by (simp add: first_terminal_def example_compilation_status scripted_def)
  have p: "first_terminal (packaging_status ?w) 1"
    by (simp add: first_terminal_def example_packaging_status scripted_def)
  have run: "run_notebook ?w example_cfg = Some ?out"
    using run_notebook_result [OF example_location example_version c p example_split]
    by (simp add: example_packaging_status scripted_def)
  have m: "CreateJob (iot_request ?w example_cfg 2 ''bucket-x'' ''path/to/model.tar.gz'')
             \<in> set (log (final_state ?out))"
    by (simp add: dispatched_state_def)
  from dispatch_job_document [OF run m] obtain v kp b k
    where v: "get_latest_approved_model_version (model_package_group_name example_cfg)
             (sm_client ?w) (model_package_group_name example_cfg) = Inr v"
      and s: "split_s3_path (ModelArtifact (describe_edge_packaging_job ?w kp (packaging_name ?w)))
             = Inr (b, k)"
      and rq: "iot_request ?w example_cfg 2 ''bucket-x'' ''path/to/model.tar.gz'' =
          \<lparr>jobId = uuid4 ?w,
                 targets = [''arn:aws:iot:'' @ region example_cfg @ '':'' @ account_id example_cfg
                              @ '':thinggroup/defect-detection-'' @ PROJECT_NAME example_cfg @ ''-group''],
                 document = json_dumps
                   [(''type'', ''new_model''),
                    (''model_version'', str_int v),
                    (''model_name'', ''img-classification''),
                    (''model_package_bucket'', b),
                    (''model_package_key'', k)],
                 targetSelection = ''SNAPSHOT''\<rparr>"
      and cj: "create_jobs ?out =
          [CreateJob (iot_request ?w example_cfg 2 ''bucket-x'' ''path/to/model.tar.gz'')]"
    by blast
  from v have v2: "v = 2" by (simp add: example_version)
  from s have bk: "b = ''bucket-x''" "k = ''path/to/model.tar.gz''"
    by (simp_all add: example_split)
  have u: "uuid4 ?w = ''0b0f1c5e-7a52-4c1e-9d57-3f2a8f1f6a11''"
    by (simp add: scripted_world_def)
  show ?thesis
    using run cj rq unfolding v2 bk u example_document
    by (simp add: example_cfg_def)
qed

end
